theory Spec2Isabelle
  imports Main
begin

section \<open>Python strings\<close>

text \<open>
  Python \<open>str\<close> values are modelled as \<open>string\<close>, a character standing for the code point
  of its number, so that the alphabet is the code points below 256. The string methods
  used by the agents (\<open>strip\<close>, \<open>upper\<close>, \<open>lower\<close>, \<open>startswith\<close>, \<open>split\<close>, \<open>join\<close>,
  \<open>in\<close>) are given on this alphabet.
\<close>

text \<open>
  \<open>str.isspace\<close>, which is also what \<open>str.strip\<close> removes: the code points 9 to 13, 28 to
  32, 133 (next line) and 160 (no-break space).
\<close>

definition py_isspace :: "char \<Rightarrow> bool" where
  "py_isspace c =
     (let n = (of_char c :: nat)
      in (9 \<le> n \<and> n \<le> 13) \<or> (28 \<le> n \<and> n \<le> 32) \<or> n = 133 \<or> n = 160)"

definition py_strip :: "string \<Rightarrow> string" where
  "py_strip s = rev (dropWhile py_isspace (rev (dropWhile py_isspace s)))"

text \<open>
  \<open>str.upper\<close>, character by character: the letters \<open>a\<close> to \<open>z\<close> and the Latin-1 letters
  224 to 254 (247, the division sign, is no letter) move down by 32, and the sharp s, 223,
  becomes \<open>SS\<close>. The upper-case forms of 181 (micro sign) and 255 lie above 255, outside
  the alphabet; these two characters are left as they are.
\<close>

definition upper_char :: "char \<Rightarrow> string" where
  "upper_char c =
     (let n = (of_char c :: nat)
      in if (97 \<le> n \<and> n \<le> 122) \<or> (224 \<le> n \<and> n \<le> 254 \<and> n \<noteq> 247)
         then [char_of (n - 32)]
         else if n = 223 then ''SS''
         else [c])"

text \<open>
  \<open>str.lower\<close>, character by character: the letters \<open>A\<close> to \<open>Z\<close> and the Latin-1 capitals
  192 to 222 (215, the multiplication sign, is no letter) move up by 32.
\<close>

definition lower_char :: "char \<Rightarrow> char" where
  "lower_char c =
     (let n = (of_char c :: nat)
      in if (65 \<le> n \<and> n \<le> 90) \<or> (192 \<le> n \<and> n \<le> 222 \<and> n \<noteq> 215)
         then char_of (n + 32)
         else c)"

definition py_upper :: "string \<Rightarrow> string" where
  "py_upper s = concat (map upper_char s)"

definition py_lower :: "string \<Rightarrow> string" where
  "py_lower s = map lower_char s"

definition py_startswith :: "string \<Rightarrow> string \<Rightarrow> bool" where
  "py_startswith s p = (take (length p) s = p)"

text \<open>\<open>w in s\<close> on strings: \<open>w\<close> occurs in \<open>s\<close> as a contiguous run of characters.\<close>

fun py_in :: "string \<Rightarrow> string \<Rightarrow> bool" where
  "py_in w [] = (w = [])"
| "py_in w (c # cs) = (py_startswith (c # cs) w \<or> py_in w cs)"

text \<open>\<open>any(word in text for word in words)\<close>\<close>

definition any_in :: "string list \<Rightarrow> string \<Rightarrow> bool" where
  "any_in ws text = list_ex (\<lambda>w. py_in w text) ws"

text \<open>\<open>s.split(sep)\<close> for a one-character separator: never the empty list.\<close>

fun py_split :: "char \<Rightarrow> string \<Rightarrow> string list" where
  "py_split sep [] = [[]]"
| "py_split sep (c # cs) =
     (if c = sep then [] # py_split sep cs
      else (case py_split sep cs of
              [] \<Rightarrow> [[c]]
            | l # ls \<Rightarrow> (c # l) # ls))"

text \<open>\<open>sep.join(parts)\<close>\<close>

fun py_join :: "string \<Rightarrow> string list \<Rightarrow> string" where
  "py_join sep [] = []"
| "py_join sep [p] = p"
| "py_join sep (p # q # ps) = p @ sep @ py_join sep (q # ps)"

section \<open>The coordinator agent's query classification\<close>

text \<open>\<open>_determine_focus_areas\<close> of \<open>agents/coordinator.py\<close>.\<close>

definition determine_focus_areas :: "string \<Rightarrow> string list" where
  "determine_focus_areas user_query =
     (let query_lower = py_lower user_query;
          a1 = (if any_in [''risk'', ''risky'', ''safe'', ''volatile'', ''volatility''] query_lower
                then [''risk_assessment''] else []);
          a2 = (if any_in [''value'', ''fundamental'', ''earnings'', ''revenue'', ''profit''] query_lower
                then a1 @ [''fundamentals''] else a1);
          a3 = (if any_in [''price'', ''trend'', ''momentum'', ''technical'', ''chart''] query_lower
                then a2 @ [''technical''] else a2);
          a4 = (if any_in [''news'', ''sentiment'', ''recent'', ''latest'', ''happening''] query_lower
                then a3 @ [''news_sentiment''] else a3)
      in if a4 = [] then [''comprehensive''] else a4)"

text \<open>\<open>_classify_user_intent\<close>: the first keyword group that matches decides.\<close>

definition classify_user_intent :: "string \<Rightarrow> string" where
  "classify_user_intent user_query =
     (let query_lower = py_lower user_query
      in if any_in [''buy'', ''invest'', ''purchase'', ''should i get''] query_lower
         then ''buy_decision''
         else if any_in [''sell'', ''exit'', ''dump'', ''get out''] query_lower
         then ''sell_decision''
         else if any_in [''hold'', ''keep'', ''maintain'', ''stay in''] query_lower
         then ''hold_decision''
         else ''research'')"

text \<open>\<open>_assess_time_sensitivity\<close>\<close>

definition urgent_keywords :: "string list" where
  "urgent_keywords = [''today'', ''now'', ''urgent'', ''immediate'', ''asap'', ''quick'', ''right now'']"

definition assess_time_sensitivity :: "string \<Rightarrow> string" where
  "assess_time_sensitivity user_query =
     (let query_lower = py_lower user_query
      in if any_in urgent_keywords query_lower then ''urgent'' else ''normal'')"

section \<open>JSON values and dictionaries\<close>

text \<open>
  The analysis records are Python dictionaries holding whatever \<open>json.loads\<close> returned:
  \<open>None\<close>, booleans, integers, floats, strings, lists and dictionaries. No arithmetic is
  done on floats by the agents, so a float is kept as the decimal literal that denotes it.
  A dictionary is an association list in insertion order with distinct keys.
\<close>

datatype json =
    JNull
  | JBool bool
  | JInt int
  | JFloat string
  | JStr string
  | JArr "json list"
  | JObj "(string \<times> json) list"

type_synonym dict = "(string \<times> json) list"

text \<open>\<open>d.get(k, default)\<close>\<close>

definition dict_get :: "dict \<Rightarrow> string \<Rightarrow> json \<Rightarrow> json" where
  "dict_get d k dflt = (case map_of d k of None \<Rightarrow> dflt | Some v \<Rightarrow> v)"

text \<open>\<open>d[k] = v\<close>: an existing key keeps its place, a new key goes last.\<close>

fun dict_set :: "string \<Rightarrow> json \<Rightarrow> dict \<Rightarrow> dict" where
  "dict_set k v [] = [(k, v)]"
| "dict_set k v ((k', v') # d) =
     (if k' = k then (k, v) # d else (k', v') # dict_set k v d)"

text \<open>
  The values that the format specifications \<open>.2f\<close> and \<open>,.0f\<close> accept: a \<open>float\<close>, a
  \<open>bool\<close>, and an \<open>int\<close> that converts to a float, which is one whose magnitude is below
  \<open>2 ^ 1024 - 2 ^ 970\<close>; a larger one raises \<open>OverflowError\<close>, and every other type raises
  \<open>TypeError\<close> or \<open>ValueError\<close>.
\<close>

definition float_limit :: int where
  "float_limit = 2 ^ 1024 - 2 ^ 970"

fun float_formattable :: "json \<Rightarrow> bool" where
  "float_formattable (JInt n) = (- float_limit < n \<and> n < float_limit)"
| "float_formattable (JFloat _) = True"
| "float_formattable (JBool _) = True"
| "float_formattable _ = False"

text \<open>The values that \<open>x[:n]\<close> accepts among JSON values: lists and strings.\<close>

fun sliceable :: "json \<Rightarrow> bool" where
  "sliceable (JArr _) = True"
| "sliceable (JStr _) = True"
| "sliceable _ = False"

text \<open>A value stored into an \<open>Optional\<close> field of the state: \<open>None\<close> is the absent value.\<close>

definition py_optional :: "json \<Rightarrow> json option" where
  "py_optional v = (if v = JNull then None else Some v)"

section \<open>The shared state\<close>

text \<open>\<open>InvestmentState\<close> of \<open>graph/state.py\<close>, with the plan the coordinator builds.\<close>

record message =
  role :: string
  content :: string

record plan_context =
  user_intent :: string
  time_sensitivity :: string

record plan =
  plan_ticker :: string
  perform_financial_analysis :: bool
  perform_sentiment_analysis :: bool
  focus_areas :: "string list"
  plan_context :: plan_context

record investment_state =
  ticker :: string
  user_query :: string
  analysis_plan :: "plan option"
  financial_analysis :: "dict option"
  sentiment_analysis :: "dict option"
  recommendation :: "json option"
  confidence :: "json option"
  reasoning :: "json option"
  messages :: "message list"
  errors :: "string list"

text \<open>
  An agent either returns the state object it was given (mutated in place), or a dictionary
  holding only the keys it wants to update, or it lets an exception escape.
\<close>

record delta =
  d_analysis_plan :: "plan option"
  d_financial_analysis :: "dict option"
  d_sentiment_analysis :: "dict option"
  d_messages :: "message list option"
  d_errors :: "string list option"

definition empty_delta :: delta where
  "empty_delta = \<lparr>d_analysis_plan = None, d_financial_analysis = None,
     d_sentiment_analysis = None, d_messages = None, d_errors = None\<rparr>"

text \<open>
  Exceptions raised by the Python runtime inside an agent (an attribute lookup, an item
  assignment, a format specification or a slice applied to a value that does not support
  it), and exceptions raised by a collaborator or by the JSON decoder, which carry their
  message.
\<close>

datatype py_op = GetAttr | SetItem | Format | Slice

datatype exn = Internal py_op json | External string

datatype ret = ReturnState | ReturnDelta delta | Raises exn

section \<open>Collaborators\<close>

text \<open>
  A prompt is represented by the values its text is rendered from, so the completion
  collaborator is a function of everything the prompt text depends on.
\<close>

datatype prompt =
    AnalysisPrompt string dict dict dict "string list"
  | SentimentPrompt string "dict list" "string list"
  | SynthesisPrompt string string string dict dict

text \<open>A successful market bundle holds \<open>fundamentals\<close>, \<open>history\<close> and \<open>info\<close>, in this order.\<close>

datatype market_result = MarketFailure string | MarketSuccess dict dict dict

datatype news_result = NewsFailure string | NewsSuccess "dict list"

datatype completion = CompletionRaises string | CompletionText string

datatype call = FetchMarket string | FetchNews string json | Complete prompt

text \<open>
  What \<open>json.loads\<close> does with a text: it returns the parsed value, or raises a
  \<open>JSONDecodeError\<close> (a \<open>ValueError\<close>), or raises another exception, such as the
  \<open>RecursionError\<close> of a deeply nested text.
\<close>

datatype load_result = Parsed json | DecodeError | LoadRaises string

text \<open>
  The world outside the agents: the data source behind \<open>MarketDataMCP\<close>, the news
  collaborator \<open>NewsMCP().fetch_data(ticker, company_name, days=30)\<close>, the completion
  service, \<open>json.loads\<close>, and the texts the Python runtime
  produces: \<open>str(e)\<close> of its own exceptions, \<open>format(x, '.2f')\<close> of a number and \<open>str(x)\<close>
  of a value that is not a string.
\<close>

record env =
  yfinance :: "string \<Rightarrow> market_result"
  news :: "string \<Rightarrow> json \<Rightarrow> news_result"
  complete :: "prompt \<Rightarrow> completion"
  loads :: "string \<Rightarrow> load_result"
  runtime_text :: "py_op \<Rightarrow> json \<Rightarrow> string"
  format_2f :: "json \<Rightarrow> string"
  py_str :: "json \<Rightarrow> string"

definition str_exn :: "env \<Rightarrow> exn \<Rightarrow> string" where
  "str_exn e x = (case x of External m \<Rightarrow> m | Internal op v \<Rightarrow> runtime_text e op v)"

text \<open>\<open>f"{x}"\<close> for a value out of a dictionary.\<close>

definition fmt :: "env \<Rightarrow> json \<Rightarrow> string" where
  "fmt e v = (case v of JStr s \<Rightarrow> s | _ \<Rightarrow> py_str e v)"

text \<open>
  \<open>MarketDataMCP.fetch_data(ticker, data_type="all", period="1y")\<close>: an empty ticker is
  refused before the data source is asked; every failure comes back as a result with
  \<open>success = False\<close> and the error text.
\<close>

definition market_fetch_data :: "env \<Rightarrow> string \<Rightarrow> market_result" where
  "market_fetch_data e t =
     (if t = [] then MarketFailure ''Ticker must be a non-empty string''
      else yfinance e (py_upper t))"

record outcome =
  final_state :: investment_state
  returned :: ret
  calls :: "call list"

section \<open>Cleaning a completion response\<close>

text \<open>
  \<open>re.search(r'\{.*\}', text, re.DOTALL)\<close>: the match starts at the first opening brace
  and, the star being greedy and the dot matching newlines, ends at the last closing brace
  of the text; there is no match when no closing brace follows the first opening brace.
\<close>

definition search_braces :: "string \<Rightarrow> string option" where
  "search_braces text =
     (let from_open = dropWhile (\<lambda>c. c \<noteq> CHR ''{'') text;
          span = rev (dropWhile (\<lambda>c. c \<noteq> CHR ''}'') (rev from_open))
      in if span = [] then None else Some span)"

text \<open>\<open>clean_json_response\<close>, the same function in each of the three agent modules.\<close>

definition clean_json_response :: "string \<Rightarrow> string" where
  "clean_json_response response_text =
     (let t1 = py_strip response_text;
          t2 = (if py_startswith t1 ''```'' then
                  (let lines0 = py_split (CHR 0x0A) t1;
                       lines1 = (case lines0 of
                                   [] \<Rightarrow> lines0
                                 | l # ls \<Rightarrow> if py_startswith l ''```'' then ls else lines0);
                       lines2 = (if lines1 \<noteq> [] \<and> py_strip (last lines1) = ''```''
                                 then butlast lines1 else lines1)
                   in py_strip (py_join [CHR 0x0A] lines2))
                else t1)
      in case search_braces t2 of Some m \<Rightarrow> m | None \<Rightarrow> t2)"

section \<open>The coordinator agent\<close>

definition coordinator_agent :: "investment_state \<Rightarrow> outcome" where
  "coordinator_agent s =
     (let t = py_strip (py_upper (ticker s));
          q = user_query s
      in if t = [] then
           \<lparr>final_state = s\<lparr>errors := errors s @ [''No ticker provided'']\<rparr>,
            returned = ReturnState, calls = []\<rparr>
         else
           (let p = \<lparr>plan_ticker = t,
                     perform_financial_analysis = True,
                     perform_sentiment_analysis = True,
                     focus_areas = determine_focus_areas q,
                     plan_context = \<lparr>user_intent = classify_user_intent q,
                                     time_sensitivity = assess_time_sensitivity q\<rparr>\<rparr>;
                m = \<lparr>role = ''coordinator'',
                     content = ''Planning analysis for '' @ t @ ''. Focus: ''
                               @ py_join '', '' (focus_areas p)\<rparr>
            in \<lparr>final_state = s\<lparr>analysis_plan := Some p, messages := messages s @ [m]\<rparr>,
                returned = ReturnDelta
                  (empty_delta\<lparr>d_analysis_plan := Some p, d_messages := Some [m]\<rparr>),
                calls = []\<rparr>))"

section \<open>The financial agent\<close>

text \<open>
  The outer \<open>except Exception\<close> of the financial and the sentiment agent: the state object
  is left as it is and a dictionary with the extended error list is returned.
\<close>

definition agent_error :: "env \<Rightarrow> investment_state \<Rightarrow> string \<Rightarrow> exn \<Rightarrow> call list \<Rightarrow> outcome" where
  "agent_error e s prefix x cs =
     \<lparr>final_state = s,
      returned = ReturnDelta (empty_delta\<lparr>d_errors := Some (errors s @ [prefix @ str_exn e x])\<rparr>),
      calls = cs\<rparr>"

text \<open>
  \<open>_build_analysis_prompt\<close>: \<open>plan.get\<close> fails on \<open>None\<close>, and the market capitalisation is
  rendered with the format \<open>,.0f\<close>.
\<close>

definition build_analysis_prompt ::
  "string \<Rightarrow> dict \<Rightarrow> dict \<Rightarrow> dict \<Rightarrow> plan option \<Rightarrow> exn + prompt" where
  "build_analysis_prompt t fundamentals history info pl =
     (case pl of
        None \<Rightarrow> Inl (Internal GetAttr JNull)
      | Some p \<Rightarrow>
          (let market_cap = dict_get info ''market_cap'' (JInt 0)
           in if \<not> float_formattable market_cap then Inl (Internal Format market_cap)
              else Inr (AnalysisPrompt t fundamentals history info (focus_areas p))))"

definition fallback_financial :: "string \<Rightarrow> dict" where
  "fallback_financial response_text =
     [(''fundamentals_summary'', JStr (take 500 response_text)),
      (''technical_summary'', JStr ''See fundamentals summary''),
      (''assessment'', JStr (take 500 response_text)),
      (''strengths'', JArr []),
      (''concerns'', JArr []),
      (''valuation'', JStr ''Unknown''),
      (''trend'', JStr ''Unknown'')]"

text \<open>
  The inner \<open>try\<close> of an agent: clean the response, parse it strictly, and on a
  \<open>JSONDecodeError\<close> take the agent's fallback record. Its \<open>except\<close> clause names
  \<open>JSONDecodeError\<close> and \<open>ValueError\<close> only: any other exception of the decoder leaves the
  inner \<open>try\<close> for the agent's outer \<open>except\<close>.
\<close>

definition parse_or :: "env \<Rightarrow> dict \<Rightarrow> string \<Rightarrow> exn + json" where
  "parse_or e fallback response_text =
     (case loads e (clean_json_response response_text) of
        Parsed v \<Rightarrow> Inr v
      | DecodeError \<Rightarrow> Inr (JObj fallback)
      | LoadRaises m \<Rightarrow> Inl (External m))"

text \<open>\<open>x[k] = v\<close> for a string key: only a dictionary accepts it.\<close>

definition set_item :: "json \<Rightarrow> string \<Rightarrow> json \<Rightarrow> exn + dict" where
  "set_item x k v = (case x of JObj d \<Rightarrow> Inr (dict_set k v d) | _ \<Rightarrow> Inl (Internal SetItem x))"

text \<open>
  The inner \<open>try\<close> followed by the first item assignment on its result, as the financial
  and the sentiment agent do: an exception of either ends the outer \<open>try\<close>.
\<close>

definition parse_and_set ::
  "env \<Rightarrow> dict \<Rightarrow> string \<Rightarrow> string \<Rightarrow> json \<Rightarrow> exn + dict" where
  "parse_and_set e fallback response_text k v =
     (case parse_or e fallback response_text of
        Inl x \<Rightarrow> Inl x
      | Inr parsed \<Rightarrow> set_item parsed k v)"

definition financial_agent :: "env \<Rightarrow> investment_state \<Rightarrow> outcome" where
  "financial_agent e s =
     (let t = ticker s
      in case market_fetch_data e t of
           MarketFailure err \<Rightarrow>
             \<lparr>final_state = s\<lparr>errors := errors s @ [''Failed to fetch market data: '' @ err]\<rparr>,
              returned = ReturnState, calls = [FetchMarket t]\<rparr>
         | MarketSuccess fundamentals history info \<Rightarrow>
             (case build_analysis_prompt t fundamentals history info (analysis_plan s) of
                Inl x \<Rightarrow> agent_error e s ''Financial agent error: '' x [FetchMarket t]
              | Inr p \<Rightarrow>
                  (case complete e p of
                     CompletionRaises m \<Rightarrow>
                       agent_error e s ''Financial agent error: '' (External m)
                         [FetchMarket t, Complete p]
                   | CompletionText response_text \<Rightarrow>
                       (case parse_and_set e (fallback_financial response_text) response_text
                               ''raw_data''
                               (JObj [(''fundamentals'', JObj fundamentals),
                                      (''technical'', JObj history),
                                      (''company_info'', JObj info)]) of
                          Inl x \<Rightarrow>
                            agent_error e s ''Financial agent error: '' x
                              [FetchMarket t, Complete p]
                        | Inr analysis \<Rightarrow>
                            \<lparr>final_state = s,
                             returned = ReturnDelta
                               (empty_delta\<lparr>d_financial_analysis := Some analysis,
                                  d_messages := Some
                                    [\<lparr>role = ''financial_agent'',
                                      content = ''Completed financial analysis for '' @ t\<rparr>]\<rparr>),
                             calls = [FetchMarket t, Complete p]\<rparr>))))"

section \<open>The sentiment agent\<close>

text \<open>\<open>str(n)\<close> for a natural number.\<close>

fun show_nat :: "nat \<Rightarrow> string" where
  "show_nat n =
     (if n < 10 then [char_of (48 + n)]
      else show_nat (n div 10) @ [char_of (48 + n mod 10)])"

declare show_nat.simps [simp del]

text \<open>
  The company name is read from the financial analysis before the \<open>try\<close> block is entered:
  an attribute error on a \<open>raw_data\<close> or \<open>company_info\<close> that is no dictionary escapes
  the agent.
\<close>

definition company_name_of :: "investment_state \<Rightarrow> exn + json" where
  "company_name_of s =
     (case financial_analysis s of
        None \<Rightarrow> Inr JNull
      | Some fa \<Rightarrow>
          if fa = [] then Inr JNull
          else (case dict_get fa ''raw_data'' (JObj []) of
                  JObj raw_data \<Rightarrow>
                    (case dict_get raw_data ''company_info'' (JObj []) of
                       JObj company_info \<Rightarrow> Inr (dict_get company_info ''company_name'' JNull)
                     | v \<Rightarrow> Inl (Internal GetAttr v))
                | v \<Rightarrow> Inl (Internal GetAttr v)))"

text \<open>\<open>_build_sentiment_prompt\<close>: the first 20 articles and the plan's focus areas.\<close>

definition build_sentiment_prompt :: "string \<Rightarrow> dict list \<Rightarrow> plan option \<Rightarrow> exn + prompt" where
  "build_sentiment_prompt t articles pl =
     (case pl of
        None \<Rightarrow> Inl (Internal GetAttr JNull)
      | Some p \<Rightarrow> Inr (SentimentPrompt t (take 20 articles) (focus_areas p)))"

definition no_news_sentiment :: dict where
  "no_news_sentiment =
     [(''sentiment_score'', JFloat ''0.5''),
      (''article_count'', JInt 0),
      (''key_themes'', JArr []),
      (''overall_mood'', JStr ''Neutral''),
      (''concerns'', JArr [JStr ''No recent news coverage found'']),
      (''catalysts'', JArr []),
      (''summary'', JStr ''Insufficient news data to determine sentiment'')]"

definition fallback_sentiment :: "nat \<Rightarrow> string \<Rightarrow> dict" where
  "fallback_sentiment total_articles response_text =
     [(''sentiment_score'', JFloat ''0.5''),
      (''article_count'', JInt (int total_articles)),
      (''key_themes'', JArr []),
      (''overall_mood'', JStr ''Neutral''),
      (''concerns'', JArr []),
      (''catalysts'', JArr []),
      (''summary'', JStr (take 500 response_text))]"

definition sentiment_agent :: "env \<Rightarrow> investment_state \<Rightarrow> outcome" where
  "sentiment_agent e s =
     (let t = ticker s
      in case company_name_of s of
           Inl x \<Rightarrow> \<lparr>final_state = s, returned = Raises x, calls = []\<rparr>
         | Inr company_name \<Rightarrow>
             (case news e t company_name of
                NewsFailure err \<Rightarrow>
                  \<lparr>final_state = s\<lparr>errors := errors s @ [''Failed to fetch news: '' @ err]\<rparr>,
                   returned = ReturnState, calls = [FetchNews t company_name]\<rparr>
              | NewsSuccess articles \<Rightarrow>
                  (let total_articles = length articles
                   in if total_articles = 0 then
                        \<lparr>final_state = s
                           \<lparr>sentiment_analysis := Some no_news_sentiment,
                            messages := messages s @
                              [\<lparr>role = ''sentiment_agent'',
                                content = ''No news articles found for '' @ t\<rparr>]\<rparr>,
                         returned = ReturnState, calls = [FetchNews t company_name]\<rparr>
                      else
                        (case build_sentiment_prompt t articles (analysis_plan s) of
                           Inl x \<Rightarrow>
                             agent_error e s ''Sentiment agent error: '' x
                               [FetchNews t company_name]
                         | Inr p \<Rightarrow>
                             (case complete e p of
                                CompletionRaises m \<Rightarrow>
                                  agent_error e s ''Sentiment agent error: '' (External m)
                                    [FetchNews t company_name, Complete p]
                              | CompletionText response_text \<Rightarrow>
                                  (case parse_and_set e
                                          (fallback_sentiment total_articles response_text)
                                          response_text
                                          ''article_count'' (JInt (int total_articles)) of
                                     Inl x \<Rightarrow>
                                       agent_error e s ''Sentiment agent error: '' x
                                         [FetchNews t company_name, Complete p]
                                   | Inr counted \<Rightarrow>
                                       (let analysis = dict_set ''sample_articles''
                                              (JArr (map JObj (take 5 articles))) counted
                                        in \<lparr>final_state = s,
                                            returned = ReturnDelta
                                              (empty_delta
                                                 \<lparr>d_sentiment_analysis := Some analysis,
                                                  d_messages := Some
                                                    [\<lparr>role = ''sentiment_agent'',
                                                      content = ''Analyzed ''
                                                        @ show_nat total_articles
                                                        @ '' articles for '' @ t @ ''. Mood: ''
                                                        @ fmt e (dict_get analysis ''overall_mood''
                                                                   (JStr ''Unknown''))\<rparr>]\<rparr>),
                                            calls = [FetchNews t company_name, Complete p]\<rparr>)))))))"

section \<open>The synthesizer agent\<close>

text \<open>
  \<open>_build_synthesis_prompt\<close>: \<open>plan.get\<close> fails on \<open>None\<close>; then the prompt text is rendered
  from left to right, slicing the five lists and formatting the sentiment score with
  \<open>.2f\<close>, and the first of these that fails raises.
\<close>

definition build_synthesis_prompt ::
  "string \<Rightarrow> string \<Rightarrow> dict \<Rightarrow> dict \<Rightarrow> plan option \<Rightarrow> exn + prompt" where
  "build_synthesis_prompt t q fa sa pl =
     (let fin_strengths = dict_get fa ''strengths'' (JArr []);
          fin_concerns = dict_get fa ''concerns'' (JArr []);
          sent_score = dict_get sa ''sentiment_score'' (JFloat ''0.5'');
          sent_themes = dict_get sa ''key_themes'' (JArr []);
          sent_catalysts = dict_get sa ''catalysts'' (JArr []);
          sent_concerns = dict_get sa ''concerns'' (JArr [])
      in case pl of
           None \<Rightarrow> Inl (Internal GetAttr JNull)
         | Some p \<Rightarrow>
             if \<not> sliceable fin_strengths then Inl (Internal Slice fin_strengths)
             else if \<not> sliceable fin_concerns then Inl (Internal Slice fin_concerns)
             else if \<not> float_formattable sent_score then Inl (Internal Format sent_score)
             else if \<not> sliceable sent_themes then Inl (Internal Slice sent_themes)
             else if \<not> sliceable sent_catalysts then Inl (Internal Slice sent_catalysts)
             else if \<not> sliceable sent_concerns then Inl (Internal Slice sent_concerns)
             else Inr (SynthesisPrompt t q (user_intent (plan_context p)) fa sa))"

definition fallback_recommendation :: "string \<Rightarrow> dict" where
  "fallback_recommendation response_text =
     [(''action'', JStr ''HOLD''),
      (''confidence'', JFloat ''0.5''),
      (''reasoning'', JStr (take 1000 response_text)),
      (''risk_level'', JStr ''Medium''),
      (''time_horizon'', JStr ''Medium-term (3-12 months)''),
      (''key_factors'', JArr []),
      (''entry_strategy'', JStr ''Consult with a financial advisor''),
      (''watch_for'', JArr [])]"

text \<open>
  The outer \<open>except Exception\<close> of the synthesizer: the error is appended to the state
  object as the \<open>try\<close> block left it, and that object is returned.
\<close>

definition synthesizer_error :: "env \<Rightarrow> investment_state \<Rightarrow> exn \<Rightarrow> call list \<Rightarrow> outcome" where
  "synthesizer_error e s' x cs =
     \<lparr>final_state = s'\<lparr>errors := errors s' @ [''Synthesizer error: '' @ str_exn e x]\<rparr>,
      returned = ReturnState, calls = cs\<rparr>"

text \<open>\<open>not d\<close> for an optional dictionary: \<open>None\<close> and the empty dictionary are false.\<close>

definition falsy :: "dict option \<Rightarrow> bool" where
  "falsy d = (case d of None \<Rightarrow> True | Some kvs \<Rightarrow> kvs = [])"

definition missing_analysis :: "investment_state \<Rightarrow> outcome" where
  "missing_analysis s =
     \<lparr>final_state = s\<lparr>errors := errors s @ [''Missing required analysis data for synthesis'']\<rparr>,
      returned = ReturnState, calls = []\<rparr>"

definition synthesizer_agent :: "env \<Rightarrow> investment_state \<Rightarrow> outcome" where
  "synthesizer_agent e s =
     (let t = ticker s
      in if falsy (financial_analysis s) \<or> falsy (sentiment_analysis s) then missing_analysis s
         else
           (case (financial_analysis s, sentiment_analysis s) of
              (Some fa, Some sa) \<Rightarrow>
                (case build_synthesis_prompt t (user_query s) fa sa (analysis_plan s) of
                   Inl x \<Rightarrow> synthesizer_error e s x []
                 | Inr p \<Rightarrow>
                     (case complete e p of
                        CompletionRaises m \<Rightarrow> synthesizer_error e s (External m) [Complete p]
                      | CompletionText response_text \<Rightarrow>
                          (case parse_or e (fallback_recommendation response_text)
                                  response_text of
                             Inl x \<Rightarrow> synthesizer_error e s x [Complete p]
                           | Inr rec \<Rightarrow>
                          (let s1 = s\<lparr>recommendation := py_optional rec\<rparr>
                           in case rec of
                                JObj d \<Rightarrow>
                                  (let s2 = s1\<lparr>confidence := py_optional
                                              (dict_get d ''confidence'' (JFloat ''0.5''))\<rparr>;
                                       s3 = s2\<lparr>reasoning := py_optional
                                              (dict_get d ''reasoning'' (JStr []))\<rparr>;
                                       action = dict_get d ''action'' (JStr ''UNKNOWN'');
                                       conf = dict_get d ''confidence'' (JInt 0)
                                   in if \<not> float_formattable conf then
                                        synthesizer_error e s3 (Internal Format conf) [Complete p]
                                      else
                                        \<lparr>final_state = s3\<lparr>messages := messages s3 @
                                           [\<lparr>role = ''synthesizer'',
                                             content = ''Final recommendation for '' @ t @ '': ''
                                               @ fmt e action @ '' (confidence: ''
                                               @ format_2f e conf @ '')''\<rparr>]\<rparr>,
                                         returned = ReturnState, calls = [Complete p]\<rparr>)
                              | v \<Rightarrow> synthesizer_error e s1 (Internal GetAttr v) [Complete p]))))
            | _ \<Rightarrow> missing_analysis s))"

section \<open>The merge of a returned value into the graph state\<close>

text \<open>
  \<open>graph/state.py\<close> annotates \<open>messages\<close> and \<open>errors\<close> with the operator \<open>add\<close>: what an
  agent returns under these keys is concatenated to the current list, and every other
  returned key overwrites the current value. An agent that returns the whole state object
  returns every key. This is the merge of what one agent returns, taken alone; when the
  agent raises there is no merged state.
\<close>

definition merge_returned :: "investment_state \<Rightarrow> outcome \<Rightarrow> investment_state option" where
  "merge_returned s out =
     (case returned out of
        ReturnState \<Rightarrow>
          Some ((final_state out)
                  \<lparr>messages := messages s @ messages (final_state out),
                   errors := errors s @ errors (final_state out)\<rparr>)
      | ReturnDelta d \<Rightarrow>
          Some (s\<lparr>analysis_plan :=
                     (case d_analysis_plan d of None \<Rightarrow> analysis_plan s | Some p \<Rightarrow> Some p),
                  financial_analysis :=
                     (case d_financial_analysis d of
                        None \<Rightarrow> financial_analysis s | Some a \<Rightarrow> Some a),
                  sentiment_analysis :=
                     (case d_sentiment_analysis d of
                        None \<Rightarrow> sentiment_analysis s | Some a \<Rightarrow> Some a),
                  messages := messages s @ (case d_messages d of None \<Rightarrow> [] | Some ms \<Rightarrow> ms),
                  errors := errors s @ (case d_errors d of None \<Rightarrow> [] | Some es \<Rightarrow> es)\<rparr>)
      | Raises x \<Rightarrow> None)"

text \<open>
  The log entries an invocation writes itself: the \<open>messages\<close> of a returned dictionary,
  or what a returned state object holds after the entries it was given.
\<close>

definition own_messages :: "investment_state \<Rightarrow> outcome \<Rightarrow> message list" where
  "own_messages s out =
     (case returned out of
        ReturnState \<Rightarrow> drop (length (messages s)) (messages (final_state out))
      | ReturnDelta d \<Rightarrow> (case d_messages d of None \<Rightarrow> [] | Some ms \<Rightarrow> ms)
      | Raises x \<Rightarrow> [])"

text \<open>Whether an invocation ended on an error path: it extended \<open>errors\<close> or raised.\<close>

definition ended_in_error :: "investment_state \<Rightarrow> outcome \<Rightarrow> bool" where
  "ended_in_error s out =
     (case returned out of
        ReturnState \<Rightarrow> errors (final_state out) \<noteq> errors s
      | ReturnDelta d \<Rightarrow> d_errors d \<noteq> None
      | Raises x \<Rightarrow> True)"

section \<open>A JSON decoder\<close>

text \<open>
  A strict decoder for JSON texts, used where a theorem evaluates an agent on a concrete
  completion text: objects, arrays, strings with the one-character escapes, numbers,
  \<open>true\<close>, \<open>false\<close>, \<open>null\<close>; an escape \<open>\u\<close> is refused. The recursion is bounded
  by a counter that starts at twice the length of the text.
\<close>

definition json_ws :: "char \<Rightarrow> bool" where
  "json_ws c = (c = CHR '' '' \<or> c = CHR 0x09 \<or> c = CHR 0x0A \<or> c = CHR 0x0D)"

definition skip_ws :: "string \<Rightarrow> string" where
  "skip_ws s = dropWhile json_ws s"

definition is_digit :: "char \<Rightarrow> bool" where
  "is_digit c = (let n = (of_char c :: nat) in 48 \<le> n \<and> n \<le> 57)"

definition digits_val :: "string \<Rightarrow> nat" where
  "digits_val ds = foldl (\<lambda>a c. 10 * a + (of_char c - 48)) 0 ds"

definition unescape :: "char \<Rightarrow> char option" where
  "unescape c =
     (if c = CHR 0x22 then Some (CHR 0x22)
      else if c = CHR 0x5C then Some (CHR 0x5C)
      else if c = CHR ''/'' then Some (CHR ''/'')
      else if c = CHR ''b'' then Some (CHR 0x08)
      else if c = CHR ''f'' then Some (CHR 0x0C)
      else if c = CHR ''n'' then Some (CHR 0x0A)
      else if c = CHR ''r'' then Some (CHR 0x0D)
      else if c = CHR ''t'' then Some (CHR 0x09)
      else None)"

text \<open>The rest of a string literal after its opening quote.\<close>

fun scan_string :: "string \<Rightarrow> string \<Rightarrow> (string \<times> string) option" where
  "scan_string acc [] = None"
| "scan_string acc [c] = (if c = CHR 0x22 then Some (rev acc, []) else None)"
| "scan_string acc (c # c' # cs) =
     (if c = CHR 0x22 then Some (rev acc, c' # cs)
      else if c = CHR 0x5C then
        (case unescape c' of None \<Rightarrow> None | Some u \<Rightarrow> scan_string (u # acc) cs)
      else if (of_char c :: nat) < 32 then None
      else scan_string (c # acc) (c' # cs))"

text \<open>
  A number: an optional sign, an integer part without leading zeros, an optional fraction
  and an optional exponent. Without fraction and exponent it is an \<open>int\<close>.
\<close>

definition scan_number :: "string \<Rightarrow> (json \<times> string) option" where
  "scan_number s =
     (let neg = (case s of [] \<Rightarrow> False | c # _ \<Rightarrow> c = CHR ''-'');
          s1 = (if neg then tl s else s);
          ip = (case s1 of
                  [] \<Rightarrow> []
                | c # _ \<Rightarrow> if c = CHR ''0'' then [c] else takeWhile is_digit s1);
          s2 = drop (length ip) s1;
          fp = (case s2 of
                  [] \<Rightarrow> []
                | c # r \<Rightarrow>
                    if c = CHR ''.'' \<and> takeWhile is_digit r \<noteq> []
                    then c # takeWhile is_digit r else []);
          s3 = drop (length fp) s2;
          ep = (case s3 of
                  [] \<Rightarrow> []
                | c # r \<Rightarrow>
                    if c = CHR ''e'' \<or> c = CHR ''E'' then
                      (let sg = (case r of
                                   [] \<Rightarrow> []
                                 | x # _ \<Rightarrow> if x = CHR ''+'' \<or> x = CHR ''-'' then [x] else []);
                           ds = takeWhile is_digit (drop (length sg) r)
                       in if ds = [] then [] else c # sg @ ds)
                    else []);
          s4 = drop (length ep) s3
      in if ip = [] then None
         else if fp = [] \<and> ep = [] then
           Some (JInt (if neg then - int (digits_val ip) else int (digits_val ip)), s4)
         else Some (JFloat ((if neg then ''-'' else []) @ ip @ fp @ ep), s4))"

fun scan_value :: "nat \<Rightarrow> string \<Rightarrow> (json \<times> string) option"
  and scan_array :: "nat \<Rightarrow> json list \<Rightarrow> string \<Rightarrow> (json \<times> string) option"
  and scan_object :: "nat \<Rightarrow> dict \<Rightarrow> string \<Rightarrow> (json \<times> string) option"
where
  "scan_value 0 s = None"
| "scan_value (Suc n) s =
     (case s of
        [] \<Rightarrow> None
      | c # r \<Rightarrow>
          if c = CHR 0x22 then
            (case scan_string [] r of None \<Rightarrow> None | Some (str, r') \<Rightarrow> Some (JStr str, r'))
          else if c = CHR ''{'' then
            (case skip_ws r of
               [] \<Rightarrow> None
             | c' # r' \<Rightarrow> if c' = CHR ''}'' then Some (JObj [], r')
                          else scan_object n [] (c' # r'))
          else if c = CHR ''['' then
            (case skip_ws r of
               [] \<Rightarrow> None
             | c' # r' \<Rightarrow> if c' = CHR '']'' then Some (JArr [], r')
                          else scan_array n [] (c' # r'))
          else if py_startswith s ''null'' then Some (JNull, drop 4 s)
          else if py_startswith s ''true'' then Some (JBool True, drop 4 s)
          else if py_startswith s ''false'' then Some (JBool False, drop 5 s)
          else (case scan_number s of
                  Some res \<Rightarrow> Some res
                | None \<Rightarrow>
                    if py_startswith s ''NaN'' then Some (JFloat ''NaN'', drop 3 s)
                    else if py_startswith s ''Infinity'' then Some (JFloat ''Infinity'', drop 8 s)
                    else if py_startswith s ''-Infinity'' then Some (JFloat ''-Infinity'', drop 9 s)
                    else None))"
| "scan_array 0 acc s = None"
| "scan_array (Suc n) acc s =
     (case scan_value n s of
        None \<Rightarrow> None
      | Some (v, r) \<Rightarrow>
          (case skip_ws r of
             [] \<Rightarrow> None
           | c # r' \<Rightarrow>
               if c = CHR '','' then scan_array n (acc @ [v]) (skip_ws r')
               else if c = CHR '']'' then Some (JArr (acc @ [v]), r')
               else None))"
| "scan_object 0 acc s = None"
| "scan_object (Suc n) acc s =
     (case s of
        [] \<Rightarrow> None
      | q # r0 \<Rightarrow>
          if q \<noteq> CHR 0x22 then None
          else (case scan_string [] r0 of
                  None \<Rightarrow> None
                | Some (k, r1) \<Rightarrow>
                    (case skip_ws r1 of
                       [] \<Rightarrow> None
                     | c # r2 \<Rightarrow>
                         if c \<noteq> CHR '':'' then None
                         else (case scan_value n (skip_ws r2) of
                                 None \<Rightarrow> None
                               | Some (v, r3) \<Rightarrow>
                                   (case skip_ws r3 of
                                      [] \<Rightarrow> None
                                    | c' # r4 \<Rightarrow>
                                        if c' = CHR '','' then
                                          scan_object n (dict_set k v acc) (skip_ws r4)
                                        else if c' = CHR ''}'' then
                                          Some (JObj (dict_set k v acc), r4)
                                        else None)))))"

definition json_loads :: "string \<Rightarrow> json option" where
  "json_loads s =
     (case scan_value (2 * length s + 2) (skip_ws s) of
        None \<Rightarrow> None
      | Some (v, r) \<Rightarrow> if skip_ws r = [] then Some v else None)"

section \<open>Concrete states and collaborators\<close>

definition blank_state :: investment_state where
  "blank_state =
     \<lparr>ticker = [CHR 0x20, CHR 0xA0, CHR 0x85, CHR 0x09],
      user_query = ''Should I invest?'', analysis_plan = None,
      financial_analysis = None, sentiment_analysis = None, recommendation = None,
     confidence = None, reasoning = None, messages = [], errors = []\<rparr>"

text \<open>
  The texts CPython gives its own exceptions, and the renderings of the few values the
  concrete runs below format.
\<close>

fun type_name :: "json \<Rightarrow> string" where
  "type_name JNull = ''NoneType''"
| "type_name (JBool _) = ''bool''"
| "type_name (JInt _) = ''int''"
| "type_name (JFloat _) = ''float''"
| "type_name (JStr _) = ''str''"
| "type_name (JArr _) = ''list''"
| "type_name (JObj _) = ''dict''"

definition quoted :: "string \<Rightarrow> string" where
  "quoted s = [CHR 0x27] @ s @ [CHR 0x27]"

fun cpython_text :: "py_op \<Rightarrow> json \<Rightarrow> string" where
  "cpython_text GetAttr v =
     quoted (type_name v) @ '' object has no attribute '' @ quoted ''get''"
| "cpython_text SetItem (JArr _) = ''list indices must be integers or slices, not str''"
| "cpython_text SetItem v =
     quoted (type_name v) @ '' object does not support item assignment''"
| "cpython_text Format (JInt _) = ''int too large to convert to float''"
| "cpython_text Format (JStr _) =
     ''Unknown format code '' @ quoted ''f'' @ '' for object of type '' @ quoted ''str''"
| "cpython_text Format v =
     ''unsupported format string passed to '' @ type_name v @ ''.__format__''"
| "cpython_text Slice (JObj _) = ''unhashable type: '' @ quoted ''slice''"
| "cpython_text Slice v = quoted (type_name v) @ '' object is not subscriptable''"

definition demo_format_2f :: "json \<Rightarrow> string" where
  "demo_format_2f v =
     (if v = JFloat ''0.9'' then ''0.90''
      else if v = JFloat ''0.5'' then ''0.50''
      else if v = JInt 0 then ''0.00''
      else ''1.00'')"

definition demo_py_str :: "json \<Rightarrow> string" where
  "demo_py_str v = (case v of JBool True \<Rightarrow> ''True'' | JBool False \<Rightarrow> ''False'' | _ \<Rightarrow> ''None'')"

definition demo_plan :: plan where
  "demo_plan =
     \<lparr>plan_ticker = ''TSLA'', perform_financial_analysis = True,
      perform_sentiment_analysis = True, focus_areas = [''risk_assessment''],
      plan_context = \<lparr>user_intent = ''research'', time_sensitivity = ''urgent''\<rparr>\<rparr>"

definition coordinator_message :: message where
  "coordinator_message =
     \<lparr>role = ''coordinator'',
      content = ''Planning analysis for TSLA. Focus: risk_assessment''\<rparr>"

text \<open>The state after a successful coordinator run for \<open>TSLA\<close>.\<close>

definition planned_state :: investment_state where
  "planned_state =
     \<lparr>ticker = ''TSLA'', user_query = ''is TSLA risky right now'',
      analysis_plan = Some demo_plan, financial_analysis = None, sentiment_analysis = None,
      recommendation = None, confidence = None, reasoning = None,
      messages = [coordinator_message], errors = []\<rparr>"

definition five_articles :: "dict list" where
  "five_articles =
     [[(''title'', JStr ''a1'')], [(''title'', JStr ''a2'')], [(''title'', JStr ''a3'')],
      [(''title'', JStr ''a4'')], [(''title'', JStr ''a5'')]]"

definition seventeen_text :: string where
  "seventeen_text = ''{\"article_count\": 17, \"overall_mood\": \"Bullish\"}''"

text \<open>The decoder as \<open>json.loads\<close>: a text it refuses is a decode error.\<close>

definition decode :: "string \<Rightarrow> load_result" where
  "decode s = (case json_loads s of None \<Rightarrow> DecodeError | Some v \<Rightarrow> Parsed v)"

text \<open>
  A world in which the news collaborator finds five articles and the completion service
  answers with a sentiment record that claims seventeen.
\<close>

definition five_news_env :: env where
  "five_news_env =
     \<lparr>yfinance = (\<lambda>t. MarketFailure ''no data''),
      news = (\<lambda>t c. NewsSuccess five_articles),
      complete = (\<lambda>p. CompletionText seventeen_text),
      loads = decode,
      runtime_text = cpython_text,
      format_2f = demo_format_2f,
      py_str = demo_py_str\<rparr>"

text \<open>A world in which the news collaborator finds nothing.\<close>

definition no_news_env :: env where
  "no_news_env = five_news_env\<lparr>news := (\<lambda>t c. NewsSuccess [])\<rparr>"

text \<open>A state in which the fundamentals stage has delivered and the sentiment stage has not.\<close>

definition half_analysed_state :: investment_state where
  "half_analysed_state =
     planned_state\<lparr>financial_analysis := Some [(''assessment'', JStr ''solid'')],
                    errors := [''Failed to fetch news: rate limited'']\<rparr>"

text \<open>A state in which both analysis stages have delivered.\<close>

definition analysed_state :: investment_state where
  "analysed_state =
     planned_state
       \<lparr>financial_analysis := Some [(''assessment'', JStr ''solid'')],
        sentiment_analysis := Some no_news_sentiment,
        messages := [coordinator_message,
                     \<lparr>role = ''financial_agent'',
                       content = ''Completed financial analysis for TSLA''\<rparr>,
                     \<lparr>role = ''sentiment_agent'',
                       content = ''No news articles found for TSLA''\<rparr>]\<rparr>"

text \<open>A world in which the completion service answers with the given text.\<close>

definition reply_env :: "string \<Rightarrow> env" where
  "reply_env reply = five_news_env\<lparr>complete := (\<lambda>p. CompletionText reply)\<rparr>"

definition strong_buy_text :: string where
  "strong_buy_text = ''{\"action\": \"STRONG BUY\", \"confidence\": 0.9}''"

definition high_confidence_text :: string where
  "high_confidence_text =
     ''{\"action\": \"BUY\", \"confidence\": \"high\", \"reasoning\": \"strong quarter\"}''"

definition undecided_text :: string where
  "undecided_text = ''I cannot decide.''"

definition analysed_prompt :: prompt where
  "analysed_prompt =
     SynthesisPrompt ''TSLA'' ''is TSLA risky right now'' ''research''
       [(''assessment'', JStr ''solid'')] no_news_sentiment"

text \<open>A request with an empty ticker, and the state the coordinator leaves for it.\<close>

definition empty_ticker_state :: investment_state where
  "empty_ticker_state = blank_state\<lparr>ticker := []\<rparr>"

definition failed_plan_state :: investment_state where
  "failed_plan_state = final_state (coordinator_agent empty_ticker_state)"

text \<open>Completion texts around the object \<open>{"a": 1}\<close>.\<close>

definition fenced_reply :: string where
  "fenced_reply =
     ''```json'' @ [CHR 0x0A] @ ''{\"a\": 1}'' @ [CHR 0x0A] @ ''```'' @ [CHR 0x0A]
     @ ''Hope this helps''"

definition braces_in_prose :: string where
  "braces_in_prose = ''Use {braces}: {\"a\": 1}''"

section \<open>Substrings and blank tickers\<close>

lemma py_startswith_iff: "py_startswith s w \<longleftrightarrow> (\<exists>r. s = w @ r)"
  unfolding py_startswith_def
  by (metis append_eq_conv_conj append_take_drop_id)

lemma py_in_iff: "py_in w s \<longleftrightarrow> (\<exists>p r. s = p @ w @ r)"
proof (induction s)
  case Nil
  then show ?case by simp
next
  case (Cons c cs)
  show ?case
  proof
    assume "py_in w (c # cs)"
    then consider "py_startswith (c # cs) w" | "py_in w cs" by auto
    then show "\<exists>p r. c # cs = p @ w @ r"
    proof cases
      case 1
      then obtain r where "c # cs = w @ r" by (auto simp: py_startswith_iff)
      then have "c # cs = [] @ w @ r" by simp
      then show ?thesis by blast
    next
      case 2
      then obtain p r where "cs = p @ w @ r" using Cons.IH by blast
      then have "c # cs = (c # p) @ w @ r" by simp
      then show ?thesis by blast
    qed
  next
    assume "\<exists>p r. c # cs = p @ w @ r"
    then obtain p r where pr: "c # cs = p @ w @ r" by blast
    show "py_in w (c # cs)"
    proof (cases p)
      case Nil
      with pr have "py_startswith (c # cs) w" by (auto simp: py_startswith_iff)
      then show ?thesis by simp
    next
      case (Cons a p')
      with pr have "cs = p' @ w @ r" by simp
      then have "py_in w cs" using Cons.IH by blast
      then show ?thesis by simp
    qed
  qed
qed

lemma py_in_lower: "py_in w s \<Longrightarrow> py_in (py_lower w) (py_lower s)"
proof -
  assume "py_in w s"
  then obtain p r where "s = p @ w @ r" by (auto simp: py_in_iff)
  then have "py_lower s = py_lower p @ py_lower w @ py_lower r" by (simp add: py_lower_def)
  then show ?thesis unfolding py_in_iff by blast
qed

lemma py_in_trans: "py_in a b \<Longrightarrow> py_in b c \<Longrightarrow> py_in a c"
proof -
  assume "py_in a b" "py_in b c"
  then obtain p r p' r' where "b = p @ a @ r" "c = p' @ b @ r'"
    by (auto simp: py_in_iff)
  then have "c = (p' @ p) @ a @ (r @ r')" by simp
  then show ?thesis unfolding py_in_iff by blast
qed

lemma upper_char_space: "py_isspace c \<Longrightarrow> upper_char c = [c]"
  by (auto simp: py_isspace_def upper_char_def Let_def)

lemma strip_upper_blank:
  assumes "\<forall>c \<in> set t. py_isspace c"
  shows "py_strip (py_upper t) = []"
proof -
  have u: "py_upper t = t"
    using assms by (induction t) (simp_all add: py_upper_def upper_char_space)
  have d: "dropWhile py_isspace t = []"
    using assms by (simp add: dropWhile_eq_Nil_conv)
  show ?thesis unfolding py_strip_def u d by simp
qed

section \<open>The planner\<close>

text \<open>
  C8. For every empty or whitespace-only ticker (whitespace being what \<open>str.strip\<close>
  removes, the no-break space and the next-line character included) the coordinator produces no analysis plan
  and appends exactly one entry, \<open>No ticker provided\<close>, to \<open>errors\<close>; every other field of
  the state is left as it was. Started on the empty logs of a fresh request, the merged
  graph state also holds exactly this one error.
\<close>

theorem coordinator_blank_ticker:
  assumes "\<forall>c \<in> set (ticker s). py_isspace c"
  shows "coordinator_agent s =
           \<lparr>final_state = s\<lparr>errors := errors s @ [''No ticker provided'']\<rparr>,
            returned = ReturnState, calls = []\<rparr>
         \<and> (messages s = [] \<and> errors s = [] \<longrightarrow>
              merge_returned s (coordinator_agent s)
                = Some (s\<lparr>errors := [''No ticker provided'']\<rparr>))"
proof -
  have "py_strip (py_upper (ticker s)) = []"
    using assms by (rule strip_upper_blank)
  then have c: "coordinator_agent s =
           \<lparr>final_state = s\<lparr>errors := errors s @ [''No ticker provided'']\<rparr>,
            returned = ReturnState, calls = []\<rparr>"
    by (simp add: coordinator_agent_def)
  show ?thesis unfolding c by (simp add: merge_returned_def)
qed

lemma blank_state_ticker: "\<forall>c \<in> set (ticker blank_state). py_isspace c"
  by (simp add: blank_state_def py_isspace_def)

theorem coordinator_blank_ticker_witness:
  "list_all py_isspace (ticker blank_state)
   \<and> analysis_plan (final_state (coordinator_agent blank_state)) = None
   \<and> returned (coordinator_agent blank_state) = ReturnState
   \<and> errors (final_state (coordinator_agent blank_state)) = [''No ticker provided'']
   \<and> messages (final_state (coordinator_agent blank_state)) = []
   \<and> merge_returned blank_state (coordinator_agent blank_state)
       = Some (blank_state\<lparr>errors := [''No ticker provided'']\<rparr>)"
proof -
  note h = blank_state_ticker
  from coordinator_blank_ticker [OF h]
  have a: "coordinator_agent blank_state =
             \<lparr>final_state = blank_state\<lparr>errors := errors blank_state @ [''No ticker provided'']\<rparr>,
              returned = ReturnState, calls = []\<rparr>"
    by blast
  have e: "errors blank_state = []" "messages blank_state = []" "analysis_plan blank_state = None"
    by (simp_all add: blank_state_def)
  show ?thesis unfolding a using h e by (simp add: merge_returned_def list_all_iff)
qed

lemma lower_probe: "py_lower ''is TSLA risky right now'' = ''is tsla risky right now''"
  by code_simp

lemma probe_parts:
  assumes "py_in ''is TSLA risky right now'' q"
  shows "py_in ''risk'' (py_lower q)" and "py_in ''now'' (py_lower q)"
proof -
  have l: "py_in ''is tsla risky right now'' (py_lower q)"
    using py_in_lower [OF assms] by (simp only: lower_probe)
  have "''is tsla risky right now'' = ''is tsla '' @ ''risk'' @ ''y right now''" by simp
  then have "py_in ''risk'' ''is tsla risky right now''" unfolding py_in_iff by blast
  then show "py_in ''risk'' (py_lower q)" using l by (rule py_in_trans)
  have "''is tsla risky right now'' = ''is tsla risky right '' @ ''now'' @ []" by simp
  then have "py_in ''now'' ''is tsla risky right now''" unfolding py_in_iff by blast
  then show "py_in ''now'' (py_lower q)" using l by (rule py_in_trans)
qed

text \<open>
  C9, amended. For every user query containing the text \<open>is TSLA risky right now\<close> the
  focus areas include \<open>risk_assessment\<close> and the urgency is \<open>urgent\<close>; the intent is
  \<open>research\<close> exactly when the lower-cased query contains none of the buy, sell and hold
  keywords, as is the case for the query that consists of this text alone.
\<close>

theorem risky_right_now_query:
  assumes "py_in ''is TSLA risky right now'' q"
  shows "''risk_assessment'' \<in> set (determine_focus_areas q)
         \<and> assess_time_sensitivity q = ''urgent''
         \<and> (classify_user_intent q = ''research'' \<longleftrightarrow>
              \<not> (any_in [''buy'', ''invest'', ''purchase'', ''should i get''] (py_lower q)
                 \<or> any_in [''sell'', ''exit'', ''dump'', ''get out''] (py_lower q)
                 \<or> any_in [''hold'', ''keep'', ''maintain'', ''stay in''] (py_lower q)))
         \<and> classify_user_intent ''is TSLA risky right now'' = ''research''"
proof -
  have r: "any_in [''risk'', ''risky'', ''safe'', ''volatile'', ''volatility''] (py_lower q)"
    using probe_parts(1) [OF assms] by (simp add: any_in_def)
  have u: "any_in urgent_keywords (py_lower q)"
    using probe_parts(2) [OF assms] by (simp add: any_in_def urgent_keywords_def)
  have 1: "''risk_assessment'' \<in> set (determine_focus_areas q)"
    using r by (simp add: determine_focus_areas_def Let_def)
  have 2: "assess_time_sensitivity q = ''urgent''"
    using u by (simp add: assess_time_sensitivity_def Let_def)
  have 3: "classify_user_intent q = ''research'' \<longleftrightarrow>
              \<not> (any_in [''buy'', ''invest'', ''purchase'', ''should i get''] (py_lower q)
                 \<or> any_in [''sell'', ''exit'', ''dump'', ''get out''] (py_lower q)
                 \<or> any_in [''hold'', ''keep'', ''maintain'', ''stay in''] (py_lower q))"
    by (simp add: classify_user_intent_def Let_def)
  have 4: "classify_user_intent ''is TSLA risky right now'' = ''research''"
    by code_simp
  from 1 2 3 4 show ?thesis by blast
qed

lemma probe_in_itself: "py_in ''is TSLA risky right now'' ''is TSLA risky right now''"
  by code_simp

theorem risky_right_now_query_witness:
  "py_in ''is TSLA risky right now'' ''is TSLA risky right now''
   \<and> ''risk_assessment'' \<in> set (determine_focus_areas ''is TSLA risky right now'')
   \<and> assess_time_sensitivity ''is TSLA risky right now'' = ''urgent''
   \<and> classify_user_intent ''is TSLA risky right now'' = ''research''"
  using risky_right_now_query [OF probe_in_itself] probe_in_itself by blast

text \<open>
  A query that contains the text and also the word \<open>buy\<close> is classified as a buy decision.
\<close>

theorem intent_not_research_counterexample:
  "py_in ''is TSLA risky right now'' ''Should I buy? is TSLA risky right now''
   \<and> classify_user_intent ''Should I buy? is TSLA risky right now'' = ''buy_decision''
   \<and> classify_user_intent ''Should I buy? is TSLA risky right now'' \<noteq> ''research''"
  by code_simp

section \<open>Dictionaries\<close>

lemma map_of_dict_set_same: "map_of (dict_set k v d) k = Some v"
  by (induction d) auto

lemma map_of_dict_set_other: "k' \<noteq> k \<Longrightarrow> map_of (dict_set k v d) k' = map_of d k'"
  by (induction d) auto

section \<open>The synthesis stage without its inputs\<close>

text \<open>
  C7. Whenever the synthesizer runs while the financial analysis or the sentiment analysis
  is absent (or empty), and so in particular when exactly one of the two is present, it
  writes no recommendation, calls no collaborator, and appends exactly one entry, the
  missing-analysis message, to \<open>errors\<close>.
\<close>

theorem synthesizer_missing_analysis:
  assumes "falsy (financial_analysis s) \<or> falsy (sentiment_analysis s)"
  shows "synthesizer_agent e s =
           \<lparr>final_state = s\<lparr>errors := errors s @
                               [''Missing required analysis data for synthesis'']\<rparr>,
            returned = ReturnState, calls = []\<rparr>
         \<and> recommendation (final_state (synthesizer_agent e s)) = recommendation s
         \<and> calls (synthesizer_agent e s) = []
         \<and> length (errors (final_state (synthesizer_agent e s))) = Suc (length (errors s))"
  using assms by (simp add: synthesizer_agent_def missing_analysis_def)

theorem synthesizer_missing_analysis_witness:
  "financial_analysis half_analysed_state = Some [(''assessment'', JStr ''solid'')]
   \<and> sentiment_analysis half_analysed_state = None
   \<and> recommendation (final_state (synthesizer_agent no_news_env half_analysed_state)) = None
   \<and> calls (synthesizer_agent no_news_env half_analysed_state) = []
   \<and> errors (final_state (synthesizer_agent no_news_env half_analysed_state))
       = [''Failed to fetch news: rate limited'',
          ''Missing required analysis data for synthesis'']"
proof -
  have h: "falsy (financial_analysis half_analysed_state)
           \<or> falsy (sentiment_analysis half_analysed_state)"
    by (simp add: half_analysed_state_def planned_state_def falsy_def)
  show ?thesis
    using synthesizer_missing_analysis [OF h, of no_news_env]
    by (simp add: half_analysed_state_def planned_state_def)
qed

section \<open>The sentiment stage\<close>

text \<open>
  C5. Whenever the news fetch succeeds with no article, the sentiment agent calls the news
  collaborator only, never the completion service, stores the neutral record (score 0.5,
  mood Neutral, article count 0, the no-coverage concern) and appends one log message of
  its own, whose text differs from every message of the analysed-articles path.
\<close>

theorem sentiment_zero_articles:
  assumes "company_name_of s = Inr cn"
    and "news e (ticker s) cn = NewsSuccess []"
  shows "sentiment_agent e s =
           \<lparr>final_state = s
              \<lparr>sentiment_analysis := Some no_news_sentiment,
               messages := messages s @
                 [\<lparr>role = ''sentiment_agent'',
                   content = ''No news articles found for '' @ ticker s\<rparr>]\<rparr>,
            returned = ReturnState, calls = [FetchNews (ticker s) cn]\<rparr>
         \<and> (\<forall>p. Complete p \<notin> set (calls (sentiment_agent e s)))
         \<and> map_of no_news_sentiment ''sentiment_score'' = Some (JFloat ''0.5'')
         \<and> map_of no_news_sentiment ''overall_mood'' = Some (JStr ''Neutral'')
         \<and> map_of no_news_sentiment ''article_count'' = Some (JInt 0)
         \<and> map_of no_news_sentiment ''concerns''
             = Some (JArr [JStr ''No recent news coverage found''])
         \<and> (\<forall>rest. ''No news articles found for '' @ ticker s \<noteq> ''Analyzed '' @ rest)"
proof -
  have run: "sentiment_agent e s =
           \<lparr>final_state = s
              \<lparr>sentiment_analysis := Some no_news_sentiment,
               messages := messages s @
                 [\<lparr>role = ''sentiment_agent'',
                   content = ''No news articles found for '' @ ticker s\<rparr>]\<rparr>,
            returned = ReturnState, calls = [FetchNews (ticker s) cn]\<rparr>"
    using assms by (simp add: sentiment_agent_def Let_def)
  have rec: "map_of no_news_sentiment ''sentiment_score'' = Some (JFloat ''0.5'')
         \<and> map_of no_news_sentiment ''overall_mood'' = Some (JStr ''Neutral'')
         \<and> map_of no_news_sentiment ''article_count'' = Some (JInt 0)
         \<and> map_of no_news_sentiment ''concerns''
             = Some (JArr [JStr ''No recent news coverage found''])"
    by (simp add: no_news_sentiment_def)
  have nc: "\<forall>p. Complete p \<notin> set (calls (sentiment_agent e s))"
    unfolding run by simp
  have dist: "\<forall>rest. ''No news articles found for '' @ ticker s \<noteq> ''Analyzed '' @ rest"
    by simp
  from run rec nc dist show ?thesis by blast
qed

theorem sentiment_zero_articles_witness:
  "company_name_of planned_state = Inr JNull
   \<and> news no_news_env (ticker planned_state) JNull = NewsSuccess []
   \<and> calls (sentiment_agent no_news_env planned_state) = [FetchNews ''TSLA'' JNull]
   \<and> sentiment_analysis (final_state (sentiment_agent no_news_env planned_state))
       = Some no_news_sentiment
   \<and> messages (final_state (sentiment_agent no_news_env planned_state))
       = [coordinator_message,
          \<lparr>role = ''sentiment_agent'', content = ''No news articles found for TSLA''\<rparr>]"
proof -
  have h1: "company_name_of planned_state = Inr JNull"
    by (simp add: company_name_of_def planned_state_def)
  have h2: "news no_news_env (ticker planned_state) JNull = NewsSuccess []"
    by (simp add: no_news_env_def five_news_env_def)
  show ?thesis
    using sentiment_zero_articles [OF h1 h2] h1 h2
    by (simp add: planned_state_def)
qed

text \<open>
  C6. For every successful news fetch with at least one article, the record the sentiment
  agent returns carries the length of the fetched list as \<open>article_count\<close>, whatever the
  completion claimed, and the first five fetched articles, unchanged, as
  \<open>sample_articles\<close>; and it does return a record whenever the plan is present and the
  completion text either is refused by the decoder or parses to an object.
\<close>

theorem sentiment_article_count:
  assumes "company_name_of s = Inr cn"
    and "news e (ticker s) cn = NewsSuccess articles"
    and "articles \<noteq> []"
  shows "(\<forall>d a. returned (sentiment_agent e s) = ReturnDelta d
                \<and> d_sentiment_analysis d = Some a \<longrightarrow>
              map_of a ''article_count'' = Some (JInt (int (length articles)))
              \<and> map_of a ''sample_articles'' = Some (JArr (map JObj (take 5 articles)))
              \<and> length (take 5 articles) \<le> 5)
         \<and> (\<forall>p reply. analysis_plan s = Some p
                \<and> complete e (SentimentPrompt (ticker s) (take 20 articles) (focus_areas p))
                    = CompletionText reply
                \<and> (loads e (clean_json_response reply) = DecodeError
                     \<or> (\<exists>ob. loads e (clean_json_response reply) = Parsed (JObj ob))) \<longrightarrow>
              (\<exists>d a. returned (sentiment_agent e s) = ReturnDelta d
                     \<and> d_sentiment_analysis d = Some a))"
proof (intro conjI allI impI)
  fix d a
  assume r: "returned (sentiment_agent e s) = ReturnDelta d \<and> d_sentiment_analysis d = Some a"
  note sa = sentiment_agent_def Let_def agent_error_def empty_delta_def
  have "\<exists>ob. a = dict_set ''sample_articles'' (JArr (map JObj (take 5 articles)))
                   (dict_set ''article_count'' (JInt (int (length articles))) ob)"
  proof (cases "build_sentiment_prompt (ticker s) articles (analysis_plan s)")
    case (Inl x)
    with r assms show ?thesis by (auto simp: sa)
  next
    case (Inr p)
    show ?thesis
    proof (cases "complete e p")
      case (CompletionRaises m)
      with r assms Inr show ?thesis by (auto simp: sa)
    next
      case (CompletionText reply)
      show ?thesis
      proof (cases "parse_and_set e (fallback_sentiment (length articles) reply) reply
                      ''article_count'' (JInt (int (length articles)))")
        case (Inl x)
        with r assms Inr CompletionText show ?thesis by (auto simp: sa)
      next
        case Inr2: (Inr counted)
        then obtain ob where
          "counted = dict_set ''article_count'' (JInt (int (length articles))) ob"
          by (auto simp: parse_and_set_def set_item_def split: sum.splits json.splits)
        moreover have
          "a = dict_set ''sample_articles'' (JArr (map JObj (take 5 articles))) counted"
          using r assms Inr CompletionText Inr2 by (auto simp: sa)
        ultimately show ?thesis by blast
      qed
    qed
  qed
  then obtain ob where
    a: "a = dict_set ''sample_articles'' (JArr (map JObj (take 5 articles)))
              (dict_set ''article_count'' (JInt (int (length articles))) ob)"
    by blast
  show "map_of a ''article_count'' = Some (JInt (int (length articles)))"
    unfolding a by (simp add: map_of_dict_set_other map_of_dict_set_same)
  show "map_of a ''sample_articles'' = Some (JArr (map JObj (take 5 articles)))"
    unfolding a by (simp add: map_of_dict_set_same)
  show "length (take 5 articles) \<le> 5" by simp
next
  fix p reply
  assume h: "analysis_plan s = Some p
       \<and> complete e (SentimentPrompt (ticker s) (take 20 articles) (focus_areas p))
           = CompletionText reply
       \<and> (loads e (clean_json_response reply) = DecodeError
            \<or> (\<exists>ob. loads e (clean_json_response reply) = Parsed (JObj ob)))"
  then show "\<exists>d a. returned (sentiment_agent e s) = ReturnDelta d
                  \<and> d_sentiment_analysis d = Some a"
    using assms
    by (auto simp: sentiment_agent_def Let_def build_sentiment_prompt_def parse_or_def
                   parse_and_set_def set_item_def empty_delta_def)
qed


lemma seventeen_parsed:
  "loads five_news_env (clean_json_response seventeen_text)
     = Parsed (JObj [(''article_count'', JInt 17), (''overall_mood'', JStr ''Bullish'')])"
  by code_simp

theorem sentiment_article_count_witness:
  "news five_news_env (ticker planned_state) JNull = NewsSuccess five_articles
   \<and> length five_articles = 5
   \<and> loads five_news_env (clean_json_response seventeen_text)
       = Parsed (JObj [(''article_count'', JInt 17), (''overall_mood'', JStr ''Bullish'')])
   \<and> (\<exists>d a. returned (sentiment_agent five_news_env planned_state) = ReturnDelta d
          \<and> d_sentiment_analysis d = Some a
          \<and> map_of a ''article_count'' = Some (JInt 5)
          \<and> map_of a ''sample_articles'' = Some (JArr (map JObj five_articles)))"
proof -
  have h1: "company_name_of planned_state = Inr JNull"
    by (simp add: company_name_of_def planned_state_def)
  have h2: "news five_news_env (ticker planned_state) JNull = NewsSuccess five_articles"
    by (simp add: five_news_env_def)
  have h3: "five_articles \<noteq> []" by (simp add: five_articles_def)
  have n: "length five_articles = 5" by (simp add: five_articles_def)
  note t = sentiment_article_count [OF h1 h2 h3]
  have pl: "analysis_plan planned_state = Some demo_plan" by (simp add: planned_state_def)
  have co: "complete five_news_env
              (SentimentPrompt (ticker planned_state) (take 20 five_articles)
                 (focus_areas demo_plan)) = CompletionText seventeen_text"
    by (simp add: five_news_env_def)
  from t pl co seventeen_parsed
  obtain d a where da: "returned (sentiment_agent five_news_env planned_state) = ReturnDelta d"
      "d_sentiment_analysis d = Some a"
    by blast
  with t have "map_of a ''article_count'' = Some (JInt (int (length five_articles)))"
    and "map_of a ''sample_articles'' = Some (JArr (map JObj (take 5 five_articles)))"
    by blast+
  then have "map_of a ''article_count'' = Some (JInt 5)"
    and "map_of a ''sample_articles'' = Some (JArr (map JObj five_articles))"
    using n by simp_all
  with da h2 n seventeen_parsed show ?thesis by blast
qed

section \<open>The synthesis stage\<close>

lemma analysed_prompt_built:
  "build_synthesis_prompt (ticker analysed_state) (user_query analysed_state)
     [(''assessment'', JStr ''solid'')] no_news_sentiment (analysis_plan analysed_state)
   = Inr analysed_prompt"
  by (simp add: build_synthesis_prompt_def analysed_state_def planned_state_def demo_plan_def
        no_news_sentiment_def dict_get_def analysed_prompt_def Let_def)

text \<open>What the synthesizer does with a completion text, once the prompt is built.\<close>

lemma synthesizer_on_reply:
  assumes fa: "financial_analysis s = Some fa" "fa \<noteq> []"
    and sa: "sentiment_analysis s = Some sa" "sa \<noteq> []"
    and p: "build_synthesis_prompt (ticker s) (user_query s) fa sa (analysis_plan s) = Inr p"
    and c: "complete e p = CompletionText reply"
  shows "synthesizer_agent e s =
    (case parse_or e (fallback_recommendation reply) reply of
       Inl x \<Rightarrow> synthesizer_error e s x [Complete p]
     | Inr rec \<Rightarrow>
        (let s1 = s\<lparr>recommendation := py_optional rec\<rparr>
         in case rec of
              JObj d \<Rightarrow>
                (let s3 = s1\<lparr>confidence := py_optional (dict_get d ''confidence'' (JFloat ''0.5'')),
                            reasoning := py_optional (dict_get d ''reasoning'' (JStr []))\<rparr>;
                     conf = dict_get d ''confidence'' (JInt 0)
                 in if \<not> float_formattable conf then
                      synthesizer_error e s3 (Internal Format conf) [Complete p]
                    else
                      \<lparr>final_state = s3\<lparr>messages := messages s @
                         [\<lparr>role = ''synthesizer'',
                           content = ''Final recommendation for '' @ ticker s @ '': ''
                             @ fmt e (dict_get d ''action'' (JStr ''UNKNOWN''))
                             @ '' (confidence: '' @ format_2f e conf @ '')''\<rparr>]\<rparr>,
                       returned = ReturnState, calls = [Complete p]\<rparr>)
            | v \<Rightarrow> synthesizer_error e s1 (Internal GetAttr v) [Complete p]))"
  using assms
  by (simp add: synthesizer_agent_def falsy_def Let_def split: sum.splits json.splits)

text \<open>
  C3, amended. For every completion output the synthesizer processes: when the decoder
  refuses the cleaned output (the recovery-fallback path), the recommendation record is
  the fallback record, whose action is \<open>HOLD\<close>; when the cleaned output parses to an
  object, the record is that object, unchanged, so that its action is whatever the
  completion supplied, or missing. The log message is written when moreover the record's
  confidence can be formatted as a number, and it names the record's action, or \<open>UNKNOWN\<close>
  when the record has none; the record itself is given no action by the stage.
\<close>

theorem synthesizer_recommendation_action:
  assumes fa: "financial_analysis s = Some fa" "fa \<noteq> []"
    and sa: "sentiment_analysis s = Some sa" "sa \<noteq> []"
    and p: "build_synthesis_prompt (ticker s) (user_query s) fa sa (analysis_plan s) = Inr p"
    and c: "complete e p = CompletionText reply"
  shows "(loads e (clean_json_response reply) = DecodeError \<longrightarrow>
            recommendation (final_state (synthesizer_agent e s))
              = Some (JObj (fallback_recommendation reply))
            \<and> map_of (fallback_recommendation reply) ''action'' = Some (JStr ''HOLD''))
         \<and> (\<forall>d. loads e (clean_json_response reply) = Parsed (JObj d) \<longrightarrow>
                recommendation (final_state (synthesizer_agent e s)) = Some (JObj d))
         \<and> (\<forall>d. loads e (clean_json_response reply) = Parsed (JObj d)
                \<and> float_formattable (dict_get d ''confidence'' (JInt 0)) \<longrightarrow>
                messages (final_state (synthesizer_agent e s)) = messages s @
                     [\<lparr>role = ''synthesizer'',
                       content = ''Final recommendation for '' @ ticker s @ '': ''
                         @ fmt e (dict_get d ''action'' (JStr ''UNKNOWN''))
                         @ '' (confidence: ''
                         @ format_2f e (dict_get d ''confidence'' (JInt 0)) @ '')''\<rparr>])
         \<and> (\<forall>d. map_of d ''action'' = None \<longrightarrow>
                fmt e (dict_get d ''action'' (JStr ''UNKNOWN'')) = ''UNKNOWN'')"
proof (intro conjI allI impI)
  note run = synthesizer_on_reply [OF fa sa p c]
  {
    assume n: "loads e (clean_json_response reply) = DecodeError"
    then show "recommendation (final_state (synthesizer_agent e s))
                 = Some (JObj (fallback_recommendation reply))"
      unfolding run
      by (simp add: parse_or_def py_optional_def fallback_recommendation_def dict_get_def
            Let_def)
    show "map_of (fallback_recommendation reply) ''action'' = Some (JStr ''HOLD'')"
      by (simp add: fallback_recommendation_def)
  }
  {
    fix d
    assume d: "loads e (clean_json_response reply) = Parsed (JObj d)"
    then show "recommendation (final_state (synthesizer_agent e s)) = Some (JObj d)"
      unfolding run
      by (simp add: parse_or_def Let_def synthesizer_error_def py_optional_def)
  }
  {
    fix d
    assume d: "loads e (clean_json_response reply) = Parsed (JObj d)
               \<and> float_formattable (dict_get d ''confidence'' (JInt 0))"
    then show "messages (final_state (synthesizer_agent e s)) = messages s @
                     [\<lparr>role = ''synthesizer'',
                       content = ''Final recommendation for '' @ ticker s @ '': ''
                         @ fmt e (dict_get d ''action'' (JStr ''UNKNOWN''))
                         @ '' (confidence: ''
                         @ format_2f e (dict_get d ''confidence'' (JInt 0)) @ '')''\<rparr>]"
      unfolding run by (simp add: parse_or_def Let_def)
  }
  {
    fix d :: dict
    assume "map_of d ''action'' = None"
    then show "fmt e (dict_get d ''action'' (JStr ''UNKNOWN'')) = ''UNKNOWN''"
      by (simp add: fmt_def dict_get_def)
  }
qed

lemma analysed_state_inputs:
  "financial_analysis analysed_state = Some [(''assessment'', JStr ''solid'')]"
  "[(''assessment'', JStr ''solid'')] \<noteq> ([] :: dict)"
  "sentiment_analysis analysed_state = Some no_news_sentiment"
  "no_news_sentiment \<noteq> []"
  by (simp_all add: analysed_state_def planned_state_def no_news_sentiment_def)

lemma reply_env_complete: "complete (reply_env reply) p = CompletionText reply"
  by (simp add: reply_env_def five_news_env_def)

lemma undecided_unparsed:
  "loads (reply_env undecided_text) (clean_json_response undecided_text) = DecodeError"
  by code_simp

theorem synthesizer_recommendation_action_witness:
  "complete (reply_env undecided_text) analysed_prompt = CompletionText undecided_text
   \<and> loads (reply_env undecided_text) (clean_json_response undecided_text) = DecodeError
   \<and> recommendation (final_state (synthesizer_agent (reply_env undecided_text) analysed_state))
       = Some (JObj (fallback_recommendation undecided_text))
   \<and> map_of (fallback_recommendation undecided_text) ''action'' = Some (JStr ''HOLD'')"
  using synthesizer_recommendation_action
          [OF analysed_state_inputs analysed_prompt_built reply_env_complete,
           of undecided_text]
        undecided_unparsed reply_env_complete
  by blast

lemma strong_buy_parsed:
  "loads (reply_env strong_buy_text) (clean_json_response strong_buy_text)
     = Parsed (JObj [(''action'', JStr ''STRONG BUY''), (''confidence'', JFloat ''0.9'')])"
  by code_simp

text \<open>
  A completion whose action is \<open>STRONG BUY\<close> is stored with that action, and the fallback
  record's action is not \<open>UNKNOWN\<close>.
\<close>

theorem unvalidated_action_counterexample:
  "recommendation (final_state (synthesizer_agent (reply_env strong_buy_text) analysed_state))
     = Some (JObj [(''action'', JStr ''STRONG BUY''), (''confidence'', JFloat ''0.9'')])
   \<and> map_of [(''action'', JStr ''STRONG BUY''), (''confidence'', JFloat ''0.9'')] ''action''
       = Some (JStr ''STRONG BUY'')
   \<and> JStr ''STRONG BUY'' \<notin> {JStr ''BUY'', JStr ''HOLD'', JStr ''SELL'', JStr ''UNKNOWN''}
   \<and> recommendation (final_state (synthesizer_agent (reply_env undecided_text) analysed_state))
       = Some (JObj (fallback_recommendation undecided_text))
   \<and> map_of (fallback_recommendation undecided_text) ''action'' \<noteq> Some (JStr ''UNKNOWN'')"
proof -
  have 1: "recommendation
             (final_state (synthesizer_agent (reply_env strong_buy_text) analysed_state))
           = Some (JObj [(''action'', JStr ''STRONG BUY''), (''confidence'', JFloat ''0.9'')])"
    unfolding synthesizer_on_reply
                [OF analysed_state_inputs analysed_prompt_built reply_env_complete]
    by (simp add: parse_or_def strong_buy_parsed Let_def dict_get_def py_optional_def)
  have 2: "recommendation
             (final_state (synthesizer_agent (reply_env undecided_text) analysed_state))
           = Some (JObj (fallback_recommendation undecided_text))"
    unfolding synthesizer_on_reply
                [OF analysed_state_inputs analysed_prompt_built reply_env_complete]
    by (simp add: parse_or_def undecided_unparsed Let_def dict_get_def py_optional_def
          fallback_recommendation_def)
  have 3: "map_of (fallback_recommendation undecided_text) ''action'' \<noteq> Some (JStr ''UNKNOWN'')"
    by (simp add: fallback_recommendation_def)
  from 1 2 3 show ?thesis by simp
qed

text \<open>
  C10. The synthesizer is not atomic on its catch-all error path: for every completion
  output that parses to an object whose \<open>confidence\<close> cannot be formatted as a number,
  formatting the log message raises after \<open>recommendation\<close>, \<open>confidence\<close> and \<open>reasoning\<close>
  have been written; the returned state holds these three together with the appended
  synthesizer error, and no log message.
\<close>

theorem synthesizer_error_after_write:
  assumes fa: "financial_analysis s = Some fa" "fa \<noteq> []"
    and sa: "sentiment_analysis s = Some sa" "sa \<noteq> []"
    and p: "build_synthesis_prompt (ticker s) (user_query s) fa sa (analysis_plan s) = Inr p"
    and c: "complete e p = CompletionText reply"
    and d: "loads e (clean_json_response reply) = Parsed (JObj d)"
    and n: "\<not> float_formattable (dict_get d ''confidence'' (JInt 0))"
  shows "final_state (synthesizer_agent e s) =
           s\<lparr>recommendation := Some (JObj d),
             confidence := py_optional (dict_get d ''confidence'' (JFloat ''0.5'')),
             reasoning := py_optional (dict_get d ''reasoning'' (JStr [])),
             errors := errors s @
               [''Synthesizer error: ''
                  @ runtime_text e Format (dict_get d ''confidence'' (JInt 0))]\<rparr>
         \<and> returned (synthesizer_agent e s) = ReturnState
         \<and> messages (final_state (synthesizer_agent e s)) = messages s"
  unfolding synthesizer_on_reply [OF fa sa p c]
  using d n
  by (simp add: parse_or_def Let_def synthesizer_error_def str_exn_def py_optional_def)

lemma high_confidence_parsed:
  "loads (reply_env high_confidence_text) (clean_json_response high_confidence_text)
     = Parsed (JObj [(''action'', JStr ''BUY''), (''confidence'', JStr ''high''),
                     (''reasoning'', JStr ''strong quarter'')])"
  by code_simp

theorem synthesizer_error_after_write_witness:
  "loads (reply_env high_confidence_text) (clean_json_response high_confidence_text)
     = Parsed (JObj [(''action'', JStr ''BUY''), (''confidence'', JStr ''high''),
                     (''reasoning'', JStr ''strong quarter'')])
   \<and> recommendation
        (final_state (synthesizer_agent (reply_env high_confidence_text) analysed_state))
       = Some (JObj [(''action'', JStr ''BUY''), (''confidence'', JStr ''high''),
                     (''reasoning'', JStr ''strong quarter'')])
   \<and> confidence
        (final_state (synthesizer_agent (reply_env high_confidence_text) analysed_state))
       = Some (JStr ''high'')
   \<and> reasoning
        (final_state (synthesizer_agent (reply_env high_confidence_text) analysed_state))
       = Some (JStr ''strong quarter'')
   \<and> errors
        (final_state (synthesizer_agent (reply_env high_confidence_text) analysed_state))
       = [''Synthesizer error: '' @ cpython_text Format (JStr ''high'')]
   \<and> messages
        (final_state (synthesizer_agent (reply_env high_confidence_text) analysed_state))
       = messages analysed_state"
proof -
  have n: "\<not> float_formattable
               (dict_get [(''action'', JStr ''BUY''), (''confidence'', JStr ''high''),
                          (''reasoning'', JStr ''strong quarter'')] ''confidence'' (JInt 0))"
    by (simp add: dict_get_def)
  have e: "errors analysed_state = []"
    by (simp add: analysed_state_def planned_state_def)
  have r: "runtime_text (reply_env high_confidence_text) = cpython_text"
    by (simp add: reply_env_def five_news_env_def)
  show ?thesis
    using synthesizer_error_after_write
            [OF analysed_state_inputs analysed_prompt_built reply_env_complete
                high_confidence_parsed n]
          high_confidence_parsed
    by (simp add: dict_get_def py_optional_def e r)
qed

section \<open>Log entries per stage\<close>

lemma coordinator_own_messages:
  "length (own_messages s (coordinator_agent s))
     = (if ended_in_error s (coordinator_agent s) then 0 else 1)"
  by (simp add: coordinator_agent_def own_messages_def ended_in_error_def Let_def
        empty_delta_def)

lemma financial_own_messages:
  "length (own_messages s (financial_agent e s))
     = (if ended_in_error s (financial_agent e s) then 0 else 1)"
  by (simp add: financial_agent_def own_messages_def ended_in_error_def Let_def
        empty_delta_def agent_error_def
      split: market_result.splits sum.splits completion.splits)

lemma sentiment_own_messages:
  "length (own_messages s (sentiment_agent e s))
     = (if ended_in_error s (sentiment_agent e s) then 0 else 1)"
  by (simp add: sentiment_agent_def own_messages_def ended_in_error_def Let_def
        empty_delta_def agent_error_def
      split: news_result.splits sum.splits completion.splits)

lemma synthesizer_own_messages:
  "length (own_messages s (synthesizer_agent e s))
     = (if ended_in_error s (synthesizer_agent e s) then 0 else 1)"
  by (simp add: synthesizer_agent_def own_messages_def ended_in_error_def Let_def
        missing_analysis_def synthesizer_error_def
      split: option.splits sum.splits completion.splits json.splits)


text \<open>
  C1, amended. Each invocation of a stage writes at most one log entry of its own: exactly
  one when it ends without recording an error, and none when it ends on an error path.
  The sentiment stage's zero-article exit is no exception: it writes exactly one entry.
\<close>

theorem stage_own_messages:
  "length (own_messages s (coordinator_agent s))
     = (if ended_in_error s (coordinator_agent s) then 0 else 1)
   \<and> length (own_messages s (financial_agent e s))
     = (if ended_in_error s (financial_agent e s) then 0 else 1)
   \<and> length (own_messages s (sentiment_agent e s))
     = (if ended_in_error s (sentiment_agent e s) then 0 else 1)
   \<and> length (own_messages s (synthesizer_agent e s))
     = (if ended_in_error s (synthesizer_agent e s) then 0 else 1)
   \<and> (company_name_of s = Inr cn \<and> news e (ticker s) cn = NewsSuccess [] \<longrightarrow>
        own_messages s (sentiment_agent e s)
          = [\<lparr>role = ''sentiment_agent'',
               content = ''No news articles found for '' @ ticker s\<rparr>])"
proof -
  have "own_messages s (sentiment_agent e s)
          = [\<lparr>role = ''sentiment_agent'',
               content = ''No news articles found for '' @ ticker s\<rparr>]"
    if "company_name_of s = Inr cn \<and> news e (ticker s) cn = NewsSuccess []"
    using that by (simp add: sentiment_agent_def own_messages_def Let_def)
  then show ?thesis
    using coordinator_own_messages [of s] financial_own_messages [of s e]
      sentiment_own_messages [of s e] synthesizer_own_messages [of s e]
    by blast
qed

lemma planned_no_news:
  "company_name_of planned_state = Inr JNull"
  "news no_news_env (ticker planned_state) JNull = NewsSuccess []"
  by (simp_all add: company_name_of_def planned_state_def no_news_env_def five_news_env_def)

lemma coordinator_on_blank:
  "coordinator_agent blank_state =
     \<lparr>final_state = blank_state\<lparr>errors := [''No ticker provided'']\<rparr>,
      returned = ReturnState, calls = []\<rparr>"
  by (simp add: coordinator_agent_def blank_state_def py_upper_def upper_char_def
        py_strip_def py_isspace_def Let_def)

theorem stage_own_messages_witness:
  "ended_in_error blank_state (coordinator_agent blank_state)
   \<and> own_messages blank_state (coordinator_agent blank_state) = []
   \<and> news no_news_env (ticker planned_state) JNull = NewsSuccess []
   \<and> own_messages planned_state (sentiment_agent no_news_env planned_state)
       = [\<lparr>role = ''sentiment_agent'', content = ''No news articles found for TSLA''\<rparr>]"
proof -
  note t = stage_own_messages [of blank_state no_news_env JNull]
  note u = stage_own_messages [of planned_state no_news_env JNull]
  have e: "ended_in_error blank_state (coordinator_agent blank_state)"
    unfolding coordinator_on_blank by (simp add: ended_in_error_def blank_state_def)
  with t have "own_messages blank_state (coordinator_agent blank_state) = []" by simp
  moreover from u planned_no_news
  have "own_messages planned_state (sentiment_agent no_news_env planned_state)
       = [\<lparr>role = ''sentiment_agent'',
            content = ''No news articles found for '' @ ticker planned_state\<rparr>]"
    by blast
  then have "own_messages planned_state (sentiment_agent no_news_env planned_state)
       = [\<lparr>role = ''sentiment_agent'', content = ''No news articles found for TSLA''\<rparr>]"
    by (simp add: planned_state_def)
  ultimately show ?thesis using e planned_no_news by blast
qed

text \<open>
  The coordinator's error path adds no log entry at all; and the state object returned by
  the zero-article exit, merged by addition, repeats the coordinator's entry.
\<close>

theorem log_entries_counterexample:
  "own_messages blank_state (coordinator_agent blank_state) = []
   \<and> map_option messages (merge_returned blank_state (coordinator_agent blank_state))
       = Some []
   \<and> messages planned_state = [coordinator_message]
   \<and> map_option messages
        (merge_returned planned_state (sentiment_agent no_news_env planned_state))
       = Some [coordinator_message, coordinator_message,
               \<lparr>role = ''sentiment_agent'', content = ''No news articles found for TSLA''\<rparr>]"
proof -
  have 1: "own_messages blank_state (coordinator_agent blank_state) = []"
    unfolding coordinator_on_blank by (simp add: own_messages_def blank_state_def)
  have 2: "map_option messages (merge_returned blank_state (coordinator_agent blank_state))
             = Some []"
    unfolding coordinator_on_blank by (simp add: merge_returned_def blank_state_def)
  have 3: "messages planned_state = [coordinator_message]"
    by (simp add: planned_state_def)
  have 4: "map_option messages
        (merge_returned planned_state (sentiment_agent no_news_env planned_state))
       = Some [coordinator_message, coordinator_message,
               \<lparr>role = ''sentiment_agent'', content = ''No news articles found for TSLA''\<rparr>]"
    using planned_no_news
    by (simp add: sentiment_agent_def merge_returned_def Let_def planned_state_def)
  from 1 2 3 4 show ?thesis by blast
qed

section \<open>The stages after a failed plan\<close>

lemma failed_plan_state_eq:
  "failed_plan_state =
     \<lparr>ticker = [], user_query = ''Should I invest?'', analysis_plan = None,
      financial_analysis = None, sentiment_analysis = None, recommendation = None,
      confidence = None, reasoning = None, messages = [],
      errors = [''No ticker provided'']\<rparr>"
  by (simp add: failed_plan_state_def empty_ticker_state_def blank_state_def
        coordinator_agent_def py_upper_def py_strip_def)

text \<open>
  C2, amended. Whenever the planner has produced no plan, each later stage, when it is
  invoked, acts without looking for the plan. The financial agent makes its market-data
  call, no completion call, produces no record and hands back one error entry of its own.
  The sentiment agent makes its news call and no completion call; when the fetch succeeds
  with no article it stores the neutral record and a log message, and otherwise it
  produces no record and hands back one error entry. The synthesizer calls no
  collaborator, produces no recommendation and appends one error entry.
\<close>

theorem downstream_without_plan:
  assumes "analysis_plan s = None"
  shows "calls (financial_agent e s) = [FetchMarket (ticker s)]
         \<and> (\<exists>msg. (returned (financial_agent e s) = ReturnState
                     \<and> final_state (financial_agent e s) = s\<lparr>errors := errors s @ [msg]\<rparr>)
                 \<or> (returned (financial_agent e s)
                       = ReturnDelta (empty_delta\<lparr>d_errors := Some (errors s @ [msg])\<rparr>)
                     \<and> final_state (financial_agent e s) = s))
         \<and> (\<forall>cn. company_name_of s = Inr cn \<longrightarrow>
               calls (sentiment_agent e s) = [FetchNews (ticker s) cn]
               \<and> (if news e (ticker s) cn = NewsSuccess []
                   then returned (sentiment_agent e s) = ReturnState
                        \<and> final_state (sentiment_agent e s)
                            = s\<lparr>sentiment_analysis := Some no_news_sentiment,
                                messages := messages s @
                                  [\<lparr>role = ''sentiment_agent'',
                                    content = ''No news articles found for '' @ ticker s\<rparr>]\<rparr>
                   else (\<exists>msg. (returned (sentiment_agent e s) = ReturnState
                                 \<and> final_state (sentiment_agent e s)
                                     = s\<lparr>errors := errors s @ [msg]\<rparr>)
                             \<or> (returned (sentiment_agent e s)
                                   = ReturnDelta
                                       (empty_delta\<lparr>d_errors := Some (errors s @ [msg])\<rparr>)
                                 \<and> final_state (sentiment_agent e s) = s))))
         \<and> calls (synthesizer_agent e s) = []
         \<and> returned (synthesizer_agent e s) = ReturnState
         \<and> (\<exists>msg. final_state (synthesizer_agent e s) = s\<lparr>errors := errors s @ [msg]\<rparr>)"
proof (intro conjI allI impI)
  show "calls (financial_agent e s) = [FetchMarket (ticker s)]"
    using assms
    by (simp add: financial_agent_def Let_def build_analysis_prompt_def agent_error_def
          split: market_result.splits)
  show "\<exists>msg. (returned (financial_agent e s) = ReturnState
                     \<and> final_state (financial_agent e s) = s\<lparr>errors := errors s @ [msg]\<rparr>)
                 \<or> (returned (financial_agent e s)
                       = ReturnDelta (empty_delta\<lparr>d_errors := Some (errors s @ [msg])\<rparr>)
                     \<and> final_state (financial_agent e s) = s)"
    using assms
    by (cases "market_fetch_data e (ticker s)")
       (auto simp: financial_agent_def Let_def build_analysis_prompt_def agent_error_def)
next
  fix cn
  assume cn: "company_name_of s = Inr cn"
  then show "calls (sentiment_agent e s) = [FetchNews (ticker s) cn]"
    using assms
    by (simp add: sentiment_agent_def Let_def build_sentiment_prompt_def agent_error_def
          split: news_result.splits)
  from cn show "if news e (ticker s) cn = NewsSuccess []
                   then returned (sentiment_agent e s) = ReturnState
                        \<and> final_state (sentiment_agent e s)
                            = s\<lparr>sentiment_analysis := Some no_news_sentiment,
                                messages := messages s @
                                  [\<lparr>role = ''sentiment_agent'',
                                    content = ''No news articles found for '' @ ticker s\<rparr>]\<rparr>
                   else (\<exists>msg. (returned (sentiment_agent e s) = ReturnState
                                 \<and> final_state (sentiment_agent e s)
                                     = s\<lparr>errors := errors s @ [msg]\<rparr>)
                             \<or> (returned (sentiment_agent e s)
                                   = ReturnDelta
                                       (empty_delta\<lparr>d_errors := Some (errors s @ [msg])\<rparr>)
                                 \<and> final_state (sentiment_agent e s) = s))"
    using assms
    by (cases "news e (ticker s) cn")
       (auto simp: sentiment_agent_def Let_def build_sentiment_prompt_def agent_error_def)
next
  show "calls (synthesizer_agent e s) = []"
    using assms
    by (simp add: synthesizer_agent_def Let_def build_synthesis_prompt_def
          missing_analysis_def synthesizer_error_def split: option.splits)
  show "returned (synthesizer_agent e s) = ReturnState"
    using assms
    by (simp add: synthesizer_agent_def Let_def build_synthesis_prompt_def
          missing_analysis_def synthesizer_error_def split: option.splits)
  show "\<exists>msg. final_state (synthesizer_agent e s) = s\<lparr>errors := errors s @ [msg]\<rparr>"
    using assms
    by (cases "financial_analysis s"; cases "sentiment_analysis s")
       (auto simp: synthesizer_agent_def Let_def build_synthesis_prompt_def
          missing_analysis_def synthesizer_error_def)
qed


lemma failed_plan_facts:
  "analysis_plan failed_plan_state = None"
  "ticker failed_plan_state = []"
  "errors failed_plan_state = [''No ticker provided'']"
  "company_name_of failed_plan_state = Inr JNull"
  by (simp_all add: failed_plan_state_eq company_name_of_def)

theorem downstream_without_plan_witness:
  "analysis_plan failed_plan_state = None
   \<and> calls (financial_agent no_news_env failed_plan_state) = [FetchMarket []]
   \<and> calls (sentiment_agent no_news_env failed_plan_state) = [FetchNews [] JNull]
   \<and> sentiment_analysis (final_state (sentiment_agent no_news_env failed_plan_state))
       = Some no_news_sentiment
   \<and> calls (synthesizer_agent no_news_env failed_plan_state) = []
   \<and> returned (synthesizer_agent no_news_env failed_plan_state) = ReturnState"
proof -
  note t = downstream_without_plan [OF failed_plan_facts(1), of no_news_env]
  have n: "news no_news_env (ticker failed_plan_state) JNull = NewsSuccess []"
    by (simp add: no_news_env_def five_news_env_def)
  from t have 1: "calls (financial_agent no_news_env failed_plan_state) = [FetchMarket []]"
    by (simp add: failed_plan_facts)
  from t failed_plan_facts(4)
  have 2: "calls (sentiment_agent no_news_env failed_plan_state)
             = [FetchNews (ticker failed_plan_state) JNull]
           \<and> (if news no_news_env (ticker failed_plan_state) JNull = NewsSuccess []
                then returned (sentiment_agent no_news_env failed_plan_state) = ReturnState
                     \<and> final_state (sentiment_agent no_news_env failed_plan_state)
                         = failed_plan_state
                             \<lparr>sentiment_analysis := Some no_news_sentiment,
                              messages := messages failed_plan_state @
                                [\<lparr>role = ''sentiment_agent'',
                                  content = ''No news articles found for ''
                                            @ ticker failed_plan_state\<rparr>]\<rparr>
                else (\<exists>msg. (returned (sentiment_agent no_news_env failed_plan_state)
                                  = ReturnState
                              \<and> final_state (sentiment_agent no_news_env failed_plan_state)
                                  = failed_plan_state
                                      \<lparr>errors := errors failed_plan_state @ [msg]\<rparr>)
                          \<or> (returned (sentiment_agent no_news_env failed_plan_state)
                                = ReturnDelta
                                    (empty_delta
                                       \<lparr>d_errors := Some (errors failed_plan_state @ [msg])\<rparr>)
                              \<and> final_state (sentiment_agent no_news_env failed_plan_state)
                                  = failed_plan_state)))"
    by blast
  from 2 n have 3: "calls (sentiment_agent no_news_env failed_plan_state) = [FetchNews [] JNull]"
    and 4: "sentiment_analysis (final_state (sentiment_agent no_news_env failed_plan_state))
              = Some no_news_sentiment"
    by (simp_all add: failed_plan_facts)
  from t have 5: "calls (synthesizer_agent no_news_env failed_plan_state) = []"
    and 6: "returned (synthesizer_agent no_news_env failed_plan_state) = ReturnState"
    by blast+
  from failed_plan_facts(1) 1 3 4 5 6 show ?thesis by blast
qed

text \<open>
  After the coordinator has rejected an empty ticker, the financial agent still asks the
  market-data collaborator and records a second error, the sentiment agent still asks the
  news collaborator and, finding nothing, stores a sentiment record, and the synthesizer
  records a further error.
\<close>

theorem downstream_runs_counterexample:
  "analysis_plan failed_plan_state = None
   \<and> errors failed_plan_state = [''No ticker provided'']
   \<and> calls (financial_agent no_news_env failed_plan_state) = [FetchMarket []]
   \<and> errors (final_state (financial_agent no_news_env failed_plan_state))
       = [''No ticker provided'',
          ''Failed to fetch market data: Ticker must be a non-empty string'']
   \<and> calls (sentiment_agent no_news_env failed_plan_state) = [FetchNews [] JNull]
   \<and> sentiment_analysis (final_state (sentiment_agent no_news_env failed_plan_state))
       = Some no_news_sentiment
   \<and> errors (final_state (synthesizer_agent no_news_env failed_plan_state))
       = [''No ticker provided'', ''Missing required analysis data for synthesis'']"
proof -
  have f: "financial_agent no_news_env failed_plan_state =
             \<lparr>final_state = failed_plan_state
                \<lparr>errors := [''No ticker provided'',
                   ''Failed to fetch market data: Ticker must be a non-empty string'']\<rparr>,
              returned = ReturnState, calls = [FetchMarket []]\<rparr>"
    by (simp add: financial_agent_def market_fetch_data_def failed_plan_facts Let_def)
  have n: "news no_news_env [] JNull = NewsSuccess []"
    by (simp add: no_news_env_def five_news_env_def)
  have s: "sentiment_agent no_news_env failed_plan_state =
             \<lparr>final_state = failed_plan_state
                \<lparr>sentiment_analysis := Some no_news_sentiment,
                 messages := messages failed_plan_state @
                   [\<lparr>role = ''sentiment_agent'', content = ''No news articles found for ''\<rparr>]\<rparr>,
              returned = ReturnState, calls = [FetchNews [] JNull]\<rparr>"
    by (simp add: sentiment_agent_def failed_plan_facts Let_def n)
  have y: "synthesizer_agent no_news_env failed_plan_state =
             \<lparr>final_state = failed_plan_state
                \<lparr>errors := [''No ticker provided'',
                   ''Missing required analysis data for synthesis'']\<rparr>,
              returned = ReturnState, calls = []\<rparr>"
    by (simp add: synthesizer_agent_def missing_analysis_def falsy_def failed_plan_state_eq)
  show ?thesis unfolding f s y by (simp add: failed_plan_facts)
qed

section \<open>The response normalizer\<close>

lemma py_split_nonempty: "py_split sep t \<noteq> []"
  by (induction t) (auto split: list.splits)

lemma py_join_Cons_Cons: "py_join sep ((c # l) # ls) = c # py_join sep (l # ls)"
  by (cases ls) auto

lemma py_join_Nil_Cons: "ls \<noteq> [] \<Longrightarrow> py_join sep ([] # ls) = sep @ py_join sep ls"
  by (cases ls) auto

lemma py_join_split: "py_join [sep] (py_split sep t) = t"
proof (induction t)
  case Nil
  then show ?case by simp
next
  case (Cons c cs)
  obtain l ls where s: "py_split sep cs = l # ls"
    using py_split_nonempty [of sep cs] by (cases "py_split sep cs") auto
  show ?case
  proof (cases "c = sep")
    case True
    then show ?thesis using Cons.IH s by (simp add: py_join_Nil_Cons)
  next
    case False
    then show ?thesis using Cons.IH s by (simp add: py_join_Cons_Cons)
  qed
qed

lemma py_split_first:
  "sep \<notin> set a \<Longrightarrow> py_split sep (a @ sep # r) = a # py_split sep r"
  by (induction a) auto

lemma py_split_append_last:
  "sep \<notin> set l \<Longrightarrow> py_split sep (u @ sep # l) = py_split sep u @ [l]"
proof (induction u)
  case Nil
  then show ?case by (induction l) auto
next
  case (Cons c u)
  obtain x xs where s: "py_split sep u = x # xs"
    using py_split_nonempty [of sep u] by (cases "py_split sep u") auto
  with Cons show ?case by simp
qed

lemma py_split_no_sep: "sep \<notin> set t \<Longrightarrow> py_split sep t = [t]"
  by (induction t) auto

lemma in_set_dropWhile: "x \<in> set xs \<Longrightarrow> \<not> P x \<Longrightarrow> x \<in> set (dropWhile P xs)"
  by (induction xs) auto

lemma in_set_py_strip: "c \<in> set t \<Longrightarrow> \<not> py_isspace c \<Longrightarrow> c \<in> set (py_strip t)"
  unfolding py_strip_def by (simp add: in_set_dropWhile)

lemma fence_before:
  assumes "py_startswith (x @ c # r) ''```''" and "c \<noteq> CHR 0x60"
  shows "py_startswith x ''```''"
proof (cases x)
  case Nil
  with assms show ?thesis by (simp add: py_startswith_def)
next
  case 1: (Cons x1 y)
  show ?thesis
  proof (cases y)
    case Nil
    with assms 1 show ?thesis by (simp add: py_startswith_def)
  next
    case 2: (Cons x2 z)
    show ?thesis
    proof (cases z)
      case Nil
      with assms 1 2 show ?thesis by (simp add: py_startswith_def)
    next
      case (Cons x3 w)
      with assms 1 2 show ?thesis by (simp add: py_startswith_def)
    qed
  qed
qed

text \<open>The brace search on a text that wraps one object.\<close>

lemma search_braces_wrapped:
  assumes "CHR ''{'' \<notin> set a" and "CHR ''}'' \<notin> set b"
  shows "search_braces (a @ (CHR ''{'' # body @ [CHR ''}'']) @ b)
           = Some (CHR ''{'' # body @ [CHR ''}''])"
proof -
  have 1: "dropWhile (\<lambda>c. c \<noteq> CHR ''{'') (a @ (CHR ''{'' # body @ [CHR ''}'']) @ b)
             = CHR ''{'' # body @ [CHR ''}''] @ b"
    using assms(1) by (auto simp add: dropWhile_append3)
  have 2: "rev (CHR ''{'' # body @ [CHR ''}''] @ b) = rev b @ CHR ''}'' # rev body @ [CHR ''{'']"
    by simp
  have 3: "dropWhile (\<lambda>c. c \<noteq> CHR ''}'') (rev b @ CHR ''}'' # rev body @ [CHR ''{''])
             = CHR ''}'' # rev body @ [CHR ''{'']"
    using assms(2) by (auto simp add: dropWhile_append3)
  show ?thesis unfolding search_braces_def Let_def 1 2 3 by simp
qed

lemma py_strip_wrapped:
  "py_strip (a @ (CHR ''{'' # body @ [CHR ''}'']) @ b)
     = dropWhile py_isspace a @ (CHR ''{'' # body @ [CHR ''}''])
       @ rev (dropWhile py_isspace (rev b))"
proof -
  have o: "\<not> py_isspace (CHR ''{'')" and c: "\<not> py_isspace (CHR ''}'')"
    by (simp_all add: py_isspace_def)
  have 1: "dropWhile py_isspace (a @ (CHR ''{'' # body @ [CHR ''}'']) @ b)
             = dropWhile py_isspace a @ CHR ''{'' # body @ [CHR ''}''] @ b"
    using o by (simp add: dropWhile_append3)
  have 2: "rev (dropWhile py_isspace a @ CHR ''{'' # body @ [CHR ''}''] @ b)
             = rev b @ CHR ''}'' # (rev body @ CHR ''{'' # rev (dropWhile py_isspace a))"
    by simp
  have 3: "dropWhile py_isspace
             (rev b @ CHR ''}'' # (rev body @ CHR ''{'' # rev (dropWhile py_isspace a)))
           = dropWhile py_isspace (rev b)
             @ CHR ''}'' # (rev body @ CHR ''{'' # rev (dropWhile py_isspace a))"
    using c by (rule dropWhile_append3)
  show ?thesis unfolding py_strip_def 1 2 3 by simp
qed

text \<open>Cleaning a text that wraps one object and starts with no fence.\<close>

lemma strip_then_search:
  assumes "CHR ''{'' \<notin> set a" and "CHR ''}'' \<notin> set b"
  shows "search_braces (py_strip (a @ (CHR ''{'' # body @ [CHR ''}'']) @ b))
           = Some (CHR ''{'' # body @ [CHR ''}''])"
proof -
  have "CHR ''{'' \<notin> set (dropWhile py_isspace a)"
    using assms(1) set_dropWhileD by fastforce
  moreover have "CHR ''}'' \<notin> set (rev (dropWhile py_isspace (rev b)))"
    using assms(2) set_dropWhileD by fastforce
  ultimately show ?thesis
    unfolding py_strip_wrapped by (rule search_braces_wrapped)
qed


text \<open>
  Where a text ends in a line without closing brace, after an object that ends with one,
  that line lies in what follows the object.
\<close>

lemma last_line_after_object:
  assumes eq: "x @ [CHR ''}''] @ b = u @ CHR 0x0A # l"
    and l: "CHR ''}'' \<notin> set l"
  shows "\<exists>z. b = z @ CHR 0x0A # l \<and> u = x @ [CHR ''}''] @ z"
proof -
  from eq have "(x @ [CHR ''}'']) @ b = (u @ [CHR 0x0A]) @ l" by simp
  then consider us where "x @ [CHR ''}''] = (u @ [CHR 0x0A]) @ us" "us @ b = l"
    | us where "(x @ [CHR ''}'']) @ us = u @ [CHR 0x0A]" "b = us @ l"
    unfolding append_eq_append_conv2 by blast
  then show ?thesis
  proof cases
    case 1
    show ?thesis
    proof (cases "us = []")
      case True
      with 1(1) have "[CHR ''}''] = [CHR 0x0A]" by simp
      then show ?thesis by simp
    next
      case False
      then obtain v where "us = v @ [last us]" by (metis append_butlast_last_id)
      with 1(1) have "x @ [CHR ''}''] = (u @ [CHR 0x0A] @ v) @ [last us]" by simp
      then have "last us = CHR ''}''" by (simp only: append1_eq_conv)
      with False have "CHR ''}'' \<in> set us" by (metis last_in_set)
      with 1(2) l show ?thesis by auto
    qed
  next
    case 2
    show ?thesis
    proof (cases "us = []")
      case True
      with 2(1) have "[CHR ''}''] = [CHR 0x0A]" by simp
      then show ?thesis by simp
    next
      case False
      then obtain v where v: "us = v @ [last us]" by (metis append_butlast_last_id)
      with 2(1) have "(x @ [CHR ''}''] @ v) @ [last us] = u @ [CHR 0x0A]"
        by (metis append_assoc)
      then have "x @ [CHR ''}''] @ v = u" and "last us = CHR 0x0A"
        by (simp_all only: append1_eq_conv)
      with v 2(2) have "b = v @ CHR 0x0A # l" and "u = x @ [CHR ''}''] @ v" by auto
      then show ?thesis by blast
    qed
  qed
qed

text \<open>Dropping a closing fence line keeps the object and what surrounds it apart.\<close>

lemma closing_fence_dropped:
  assumes a: "CHR ''{'' \<notin> set a" and b: "CHR ''}'' \<notin> set b"
  shows "\<exists>x y. CHR ''{'' \<notin> set x \<and> CHR ''}'' \<notin> set y
           \<and> py_join [CHR 0x0A]
                 (if py_split (CHR 0x0A) (a @ (CHR ''{'' # body @ [CHR ''}'']) @ b) \<noteq> []
                     \<and> py_strip (last (py_split (CHR 0x0A)
                                        (a @ (CHR ''{'' # body @ [CHR ''}'']) @ b))) = ''```''
                  then butlast (py_split (CHR 0x0A) (a @ (CHR ''{'' # body @ [CHR ''}'']) @ b))
                  else py_split (CHR 0x0A) (a @ (CHR ''{'' # body @ [CHR ''}'']) @ b))
               = x @ (CHR ''{'' # body @ [CHR ''}'']) @ y"
proof -
  define rest where "rest = a @ (CHR ''{'' # body @ [CHR ''}'']) @ b"
  define L where "L = py_split (CHR 0x0A) rest"
  have goal: "\<exists>x y. CHR ''{'' \<notin> set x \<and> CHR ''}'' \<notin> set y
           \<and> py_join [CHR 0x0A]
                 (if L \<noteq> [] \<and> py_strip (last L) = ''```'' then butlast L else L)
               = x @ (CHR ''{'' # body @ [CHR ''}'']) @ y"
  proof (cases "py_strip (last L) = ''```''")
    case False
    then have "py_join [CHR 0x0A]
                 (if L \<noteq> [] \<and> py_strip (last L) = ''```'' then butlast L else L) = rest"
      by (simp add: L_def py_join_split)
    with a b show ?thesis unfolding rest_def by blast
  next
    case True
    have brace: "CHR ''{'' \<in> set rest" by (simp add: rest_def)
    have nospace: "\<not> py_isspace (CHR ''{'')" "\<not> py_isspace (CHR ''}'')"
      by (simp_all add: py_isspace_def)
    have nl: "CHR 0x0A \<in> set rest"
    proof (rule ccontr)
      assume "CHR 0x0A \<notin> set rest"
      then have "L = [rest]" by (simp add: L_def py_split_no_sep)
      with True have "py_strip rest = ''```''" by simp
      moreover have "CHR ''{'' \<in> set (py_strip rest)"
        using brace nospace(1) by (rule in_set_py_strip)
      ultimately show False by simp
    qed
    then obtain u l where ul: "rest = u @ CHR 0x0A # l" "CHR 0x0A \<notin> set l"
      by (meson split_list_last)
    then have L: "L = py_split (CHR 0x0A) u @ [l]"
      by (simp add: L_def py_split_append_last)
    with True have sl: "py_strip l = ''```''" by simp
    have "CHR ''}'' \<notin> set l"
    proof
      assume "CHR ''}'' \<in> set l"
      then have "CHR ''}'' \<in> set (py_strip l)" using nospace(2) by (rule in_set_py_strip)
      with sl show False by simp
    qed
    moreover have "(a @ CHR ''{'' # body) @ [CHR ''}''] @ b = u @ CHR 0x0A # l"
      using ul(1) by (simp add: rest_def)
    ultimately obtain z where z: "b = z @ CHR 0x0A # l"
        "u = (a @ CHR ''{'' # body) @ [CHR ''}''] @ z"
      using last_line_after_object by blast
    have "py_join [CHR 0x0A]
            (if L \<noteq> [] \<and> py_strip (last L) = ''```'' then butlast L else L) = u"
      using True L by (simp add: py_join_split)
    moreover have "u = a @ (CHR ''{'' # body @ [CHR ''}'']) @ z" using z(2) by simp
    moreover have "CHR ''}'' \<notin> set z" using b z(1) by simp
    ultimately show ?thesis using a by blast
  qed
  then show ?thesis unfolding L_def rest_def .
qed


lemma clean_wrapped:
  assumes a: "CHR ''{'' \<notin> set pre" and b: "CHR ''}'' \<notin> set post"
    and f: "py_startswith (dropWhile py_isspace pre) ''```''
            \<Longrightarrow> CHR 0x0A \<in> set (dropWhile py_isspace pre)"
  shows "clean_json_response (pre @ (CHR ''{'' # body @ [CHR ''}'']) @ post)
           = CHR ''{'' # body @ [CHR ''}'']"
proof -
  define a' where "a' = dropWhile py_isspace pre"
  define b' where "b' = rev (dropWhile py_isspace (rev post))"
  define t1 where "t1 = a' @ (CHR ''{'' # body @ [CHR ''}'']) @ b'"
  have t1: "py_strip (pre @ (CHR ''{'' # body @ [CHR ''}'']) @ post) = t1"
    unfolding t1_def a'_def b'_def by (rule py_strip_wrapped)
  have a': "CHR ''{'' \<notin> set a'"
    unfolding a'_def using a set_dropWhileD by fastforce
  have b': "CHR ''}'' \<notin> set b'"
    unfolding b'_def using b set_dropWhileD by fastforce
  show ?thesis
  proof (cases "py_startswith t1 ''```''")
    case False
    have "search_braces t1 = Some (CHR ''{'' # body @ [CHR ''}''])"
      unfolding t1_def using a' b' by (rule search_braces_wrapped)
    with False show ?thesis
      unfolding clean_json_response_def Let_def t1 by simp
  next
    case True
    then have "py_startswith (a' @ CHR ''{'' # (body @ [CHR ''}''] @ b')) ''```''"
      by (simp add: t1_def)
    then have fa: "py_startswith a' ''```''"
      by (rule fence_before) simp
    then have "CHR 0x0A \<in> set a'" using f by (simp add: a'_def)
    then obtain a1 a2 where a12: "a' = a1 @ CHR 0x0A # a2" "CHR 0x0A \<notin> set a1"
      by (meson split_list_first)
    have f1: "py_startswith a1 ''```''"
      using fa unfolding a12(1) by (rule fence_before) simp
    define rest where "rest = a2 @ (CHR ''{'' # body @ [CHR ''}'']) @ b'"
    have "t1 = a1 @ CHR 0x0A # rest" by (simp add: t1_def rest_def a12(1))
    then have lines0: "py_split (CHR 0x0A) t1 = a1 # py_split (CHR 0x0A) rest"
      using a12(2) by (simp add: py_split_first)
    have a2: "CHR ''{'' \<notin> set a2" using a' a12(1) by simp
    obtain x y where xy: "CHR ''{'' \<notin> set x" "CHR ''}'' \<notin> set y"
      "py_join [CHR 0x0A]
         (if py_split (CHR 0x0A) rest \<noteq> []
             \<and> py_strip (last (py_split (CHR 0x0A) rest)) = ''```''
          then butlast (py_split (CHR 0x0A) rest)
          else py_split (CHR 0x0A) rest)
       = x @ (CHR ''{'' # body @ [CHR ''}'']) @ y"
      using closing_fence_dropped [OF a2 b', of body] unfolding rest_def by blast
    have "search_braces (py_strip (x @ (CHR ''{'' # body @ [CHR ''}'']) @ y))
            = Some (CHR ''{'' # body @ [CHR ''}''])"
      using xy(1,2) by (rule strip_then_search)
    with True f1 show ?thesis
      unfolding clean_json_response_def Let_def t1 lines0
      by (simp only: if_True list.case xy(3) option.case)
  qed
qed


text \<open>What the financial agent does with a completion text, once the prompt is built.\<close>

lemma financial_on_reply:
  assumes m: "market_fetch_data e (ticker s) = MarketSuccess fundamentals history info"
    and p: "build_analysis_prompt (ticker s) fundamentals history info (analysis_plan s)
              = Inr p"
    and c: "complete e p = CompletionText reply"
  shows "financial_agent e s =
    (case parse_or e (fallback_financial reply) reply of
       Inl x \<Rightarrow>
         agent_error e s ''Financial agent error: '' x [FetchMarket (ticker s), Complete p]
     | Inr (JObj d) \<Rightarrow>
         \<lparr>final_state = s,
          returned = ReturnDelta
            (empty_delta
               \<lparr>d_financial_analysis := Some
                  (dict_set ''raw_data''
                     (JObj [(''fundamentals'', JObj fundamentals),
                            (''technical'', JObj history),
                            (''company_info'', JObj info)]) d),
                d_messages := Some
                  [\<lparr>role = ''financial_agent'',
                    content = ''Completed financial analysis for '' @ ticker s\<rparr>]\<rparr>),
          calls = [FetchMarket (ticker s), Complete p]\<rparr>
     | Inr v \<Rightarrow>
         agent_error e s ''Financial agent error: '' (Internal SetItem v)
           [FetchMarket (ticker s), Complete p])"
  using assms
  by (simp add: financial_agent_def Let_def parse_and_set_def set_item_def
      split: sum.splits json.splits)

text \<open>
  C4, amended. For every completion text the normalizer (cleaning, strict parsing, the
  stage's fallback when the decoder refuses the text) returns a record whenever the decoder
  refuses the cleaned text (the fallback record) or parses it to an object (that object);
  an exception of the decoder that is no decode error is not absorbed by the normalizer
  but by the stage's outer handler: the financial agent then returns its error entry and
  no record, as it returns the fallback record or the parsed object, each with the raw
  data attached, in the other two cases. And for every input that consists of one object
  text, from its opening to its closing brace, preceded by text without an opening brace
  and followed by text without a closing brace, where a fence that opens the trimmed
  input ends its line before the object starts, the cleaning yields exactly the object
  text, so that strict parsing yields exactly the embedded object.
\<close>

theorem normalizer_round_trip:
  assumes a: "CHR ''{'' \<notin> set pre" and b: "CHR ''}'' \<notin> set post"
    and f: "py_startswith (dropWhile py_isspace pre) ''```''
            \<Longrightarrow> CHR 0x0A \<in> set (dropWhile py_isspace pre)"
  shows "clean_json_response (pre @ (CHR ''{'' # body @ [CHR ''}'']) @ post)
           = CHR ''{'' # body @ [CHR ''}'']
         \<and> loads e (clean_json_response (pre @ (CHR ''{'' # body @ [CHR ''}'']) @ post))
           = loads e (CHR ''{'' # body @ [CHR ''}''])
         \<and> (\<forall>v. loads e (CHR ''{'' # body @ [CHR ''}'']) = Parsed v \<longrightarrow>
                parse_or e fallback (pre @ (CHR ''{'' # body @ [CHR ''}'']) @ post) = Inr v)
         \<and> (loads e (clean_json_response t) = DecodeError \<longrightarrow>
                parse_or e fallback t = Inr (JObj fallback))
         \<and> (\<forall>d. loads e (clean_json_response t) = Parsed (JObj d) \<longrightarrow>
                parse_or e fallback t = Inr (JObj d))
         \<and> (\<forall>m. loads e (clean_json_response t) = LoadRaises m \<longrightarrow>
                parse_or e fallback t = Inl (External m))
         \<and> (\<forall>fundamentals history info p.
                market_fetch_data e (ticker s) = MarketSuccess fundamentals history info
                \<and> build_analysis_prompt (ticker s) fundamentals history info (analysis_plan s)
                    = Inr p
                \<and> complete e p = CompletionText t \<longrightarrow>
                (loads e (clean_json_response t) = DecodeError \<longrightarrow>
                   (\<exists>d. returned (financial_agent e s) = ReturnDelta d
                        \<and> d_errors d = None
                        \<and> d_financial_analysis d = Some
                             (dict_set ''raw_data''
                                (JObj [(''fundamentals'', JObj fundamentals),
                                       (''technical'', JObj history),
                                       (''company_info'', JObj info)])
                                (fallback_financial t))))
                \<and> (\<forall>ob. loads e (clean_json_response t) = Parsed (JObj ob) \<longrightarrow>
                   (\<exists>d. returned (financial_agent e s) = ReturnDelta d
                        \<and> d_errors d = None
                        \<and> d_financial_analysis d = Some
                             (dict_set ''raw_data''
                                (JObj [(''fundamentals'', JObj fundamentals),
                                       (''technical'', JObj history),
                                       (''company_info'', JObj info)])
                                ob)))
                \<and> (\<forall>m. loads e (clean_json_response t) = LoadRaises m \<longrightarrow>
                   returned (financial_agent e s)
                     = ReturnDelta
                         (empty_delta
                            \<lparr>d_errors := Some (errors s @ [''Financial agent error: '' @ m])\<rparr>)))"
proof -
  have c: "clean_json_response (pre @ (CHR ''{'' # body @ [CHR ''}'']) @ post)
             = CHR ''{'' # body @ [CHR ''}'']"
    using a b f by (rule clean_wrapped)
  have 1: "loads e (clean_json_response (pre @ (CHR ''{'' # body @ [CHR ''}'']) @ post))
           = loads e (CHR ''{'' # body @ [CHR ''}''])"
    by (simp only: c)
  have 2: "\<forall>v. loads e (CHR ''{'' # body @ [CHR ''}'']) = Parsed v \<longrightarrow>
                parse_or e fallback (pre @ (CHR ''{'' # body @ [CHR ''}'']) @ post) = Inr v"
    unfolding parse_or_def 1 by simp
  have 3: "loads e (clean_json_response t) = DecodeError \<longrightarrow>
                parse_or e fallback t = Inr (JObj fallback)"
    by (simp add: parse_or_def)
  have 4: "\<forall>d. loads e (clean_json_response t) = Parsed (JObj d) \<longrightarrow>
                parse_or e fallback t = Inr (JObj d)"
    by (simp add: parse_or_def)
  have 5: "\<forall>m. loads e (clean_json_response t) = LoadRaises m \<longrightarrow>
                parse_or e fallback t = Inl (External m)"
    by (simp add: parse_or_def)
  have 6: "\<forall>fundamentals history info p.
                market_fetch_data e (ticker s) = MarketSuccess fundamentals history info
                \<and> build_analysis_prompt (ticker s) fundamentals history info (analysis_plan s)
                    = Inr p
                \<and> complete e p = CompletionText t \<longrightarrow>
                (loads e (clean_json_response t) = DecodeError \<longrightarrow>
                   (\<exists>d. returned (financial_agent e s) = ReturnDelta d
                        \<and> d_errors d = None
                        \<and> d_financial_analysis d = Some
                             (dict_set ''raw_data''
                                (JObj [(''fundamentals'', JObj fundamentals),
                                       (''technical'', JObj history),
                                       (''company_info'', JObj info)])
                                (fallback_financial t))))
                \<and> (\<forall>ob. loads e (clean_json_response t) = Parsed (JObj ob) \<longrightarrow>
                   (\<exists>d. returned (financial_agent e s) = ReturnDelta d
                        \<and> d_errors d = None
                        \<and> d_financial_analysis d = Some
                             (dict_set ''raw_data''
                                (JObj [(''fundamentals'', JObj fundamentals),
                                       (''technical'', JObj history),
                                       (''company_info'', JObj info)])
                                ob)))
                \<and> (\<forall>m. loads e (clean_json_response t) = LoadRaises m \<longrightarrow>
                   returned (financial_agent e s)
                     = ReturnDelta
                         (empty_delta
                            \<lparr>d_errors := Some (errors s @ [''Financial agent error: '' @ m])\<rparr>))"
  proof (intro allI impI)
    fix fundamentals history info p
    assume h: "market_fetch_data e (ticker s) = MarketSuccess fundamentals history info
                \<and> build_analysis_prompt (ticker s) fundamentals history info (analysis_plan s)
                    = Inr p
                \<and> complete e p = CompletionText t"
    then have run: "financial_agent e s =
      (case parse_or e (fallback_financial t) t of
         Inl x \<Rightarrow>
           agent_error e s ''Financial agent error: '' x [FetchMarket (ticker s), Complete p]
       | Inr (JObj d) \<Rightarrow>
           \<lparr>final_state = s,
            returned = ReturnDelta
              (empty_delta
                 \<lparr>d_financial_analysis := Some
                    (dict_set ''raw_data''
                       (JObj [(''fundamentals'', JObj fundamentals),
                              (''technical'', JObj history),
                              (''company_info'', JObj info)]) d),
                  d_messages := Some
                    [\<lparr>role = ''financial_agent'',
                      content = ''Completed financial analysis for '' @ ticker s\<rparr>]\<rparr>),
            calls = [FetchMarket (ticker s), Complete p]\<rparr>
       | Inr v \<Rightarrow>
           agent_error e s ''Financial agent error: '' (Internal SetItem v)
             [FetchMarket (ticker s), Complete p])"
      by (intro financial_on_reply) simp_all
    show "(loads e (clean_json_response t) = DecodeError \<longrightarrow>
                   (\<exists>d. returned (financial_agent e s) = ReturnDelta d
                        \<and> d_errors d = None
                        \<and> d_financial_analysis d = Some
                             (dict_set ''raw_data''
                                (JObj [(''fundamentals'', JObj fundamentals),
                                       (''technical'', JObj history),
                                       (''company_info'', JObj info)])
                                (fallback_financial t))))
                \<and> (\<forall>ob. loads e (clean_json_response t) = Parsed (JObj ob) \<longrightarrow>
                   (\<exists>d. returned (financial_agent e s) = ReturnDelta d
                        \<and> d_errors d = None
                        \<and> d_financial_analysis d = Some
                             (dict_set ''raw_data''
                                (JObj [(''fundamentals'', JObj fundamentals),
                                       (''technical'', JObj history),
                                       (''company_info'', JObj info)])
                                ob)))
                \<and> (\<forall>m. loads e (clean_json_response t) = LoadRaises m \<longrightarrow>
                   returned (financial_agent e s)
                     = ReturnDelta
                         (empty_delta
                            \<lparr>d_errors := Some (errors s @ [''Financial agent error: '' @ m])\<rparr>))"
      unfolding run
      by (simp add: parse_or_def agent_error_def str_exn_def empty_delta_def)
  qed
  from c 1 2 3 4 5 6 show ?thesis by blast
qed

lemma fenced_reply_parts:
  "fenced_reply = (''```json'' @ [CHR 0x0A]) @ (CHR ''{'' # ''\"a\": 1'' @ [CHR ''}''])
                  @ ([CHR 0x0A] @ ''```'' @ [CHR 0x0A] @ ''Hope this helps'')"
  by (simp add: fenced_reply_def)

lemma object_text_parsed: "loads five_news_env ''{\"a\": 1}'' = Parsed (JObj [(''a'', JInt 1)])"
  by code_simp

theorem normalizer_round_trip_witness:
  "CHR ''{'' \<notin> set (''```json'' @ [CHR 0x0A])
   \<and> CHR ''}'' \<notin> set ([CHR 0x0A] @ ''```'' @ [CHR 0x0A] @ ''Hope this helps'')
   \<and> CHR 0x0A \<in> set (dropWhile py_isspace (''```json'' @ [CHR 0x0A]))
   \<and> clean_json_response fenced_reply = ''{\"a\": 1}''
   \<and> parse_or five_news_env (fallback_financial fenced_reply) fenced_reply
       = Inr (JObj [(''a'', JInt 1)])"
proof -
  have a: "CHR ''{'' \<notin> set (''```json'' @ [CHR 0x0A])" by simp
  have b: "CHR ''}'' \<notin> set ([CHR 0x0A] @ ''```'' @ [CHR 0x0A] @ ''Hope this helps'')"
    by simp
  have f: "CHR 0x0A \<in> set (dropWhile py_isspace (''```json'' @ [CHR 0x0A]))"
    by (simp add: py_isspace_def)
  note t = normalizer_round_trip [OF a b f, of "''\"a\": 1''" five_news_env
             "fallback_financial fenced_reply", folded fenced_reply_parts]
  from t have 1: "clean_json_response fenced_reply = ''{\"a\": 1}''" by simp
  from t object_text_parsed
  have 2: "parse_or five_news_env (fallback_financial fenced_reply) fenced_reply
             = Inr (JObj [(''a'', JInt 1)])"
    by simp
  from a b f 1 2 show ?thesis by blast
qed

text \<open>
  The text \<open>5\<close> is normalized to the number 5, which is no record; braces in the prose
  before the object widen the span, so that the fallback is returned in place of the
  embedded object; and a fence on the object's own line removes the object.
\<close>

theorem normalizer_counterexample:
  "parse_or five_news_env (fallback_financial ''5'') ''5'' = Inr (JInt 5)
   \<and> clean_json_response braces_in_prose = ''{braces}: {\"a\": 1}''
   \<and> json_loads ''{\"a\": 1}'' = Some (JObj [(''a'', JInt 1)])
   \<and> parse_or five_news_env (fallback_financial braces_in_prose) braces_in_prose
       = Inr (JObj (fallback_financial braces_in_prose))
   \<and> clean_json_response ''```{\"a\": 1}```'' = []"
  by code_simp

end
